theory Spec2Isabelle
  imports Main
begin

section \<open>The QEMU driver of libvirt: a shallow embedding of \<^verbatim>\<open>qemu_internal.c\<close>\<close>

text \<open>
  The driver talks to the qemud daemon over a Unix socket. Everything it does beyond
  computing a return value (system calls, sleeping, forking the daemon, raising a libvirt
  error) is made explicit: the results of the system calls come from a record that describes
  the host, and the calls made are appended, in order, to a log of events.
\<close>

subsection \<open>Connections and the events of connection handling\<close>

text \<open>Bytes are C \<open>char\<close>s; a buffer or a C string is a list of them.\<close>

definition NUL :: char where
  "NUL = CHR 0x00"

text \<open>The only field of \<open>virConnect\<close> the driver touches is the descriptor \<open>qemud_fd\<close>.\<close>

record virConnect =
  qemud_fd :: int

text \<open>
  Handles. A domain handle carries its connection, name, raw UUID and numeric id; a network
  handle has no id. (The C fields are \<open>conn\<close>, \<open>name\<close>, \<open>uuid\<close> and \<open>id\<close>.)
\<close>

record virDomain =
  dom_conn :: virConnect
  dom_name :: string
  dom_uuid :: string
  dom_id :: int

record virNetwork =
  net_conn :: virConnect
  net_name :: string
  net_uuid :: string

text \<open>
  The log. \<open>EvWrite fd buf r\<close> is a call \<open>write(fd, buf, length buf)\<close> that returned
  \<open>r\<close>; \<open>EvRead fd n r\<close> a call \<open>read(fd, _, n)\<close> that returned \<open>r\<close>;
  \<open>EvRaiseError code info\<close> an error handed to \<open>__virRaiseError\<close>.
\<close>

datatype event =
    EvSocket int
  | EvConnect int string
  | EvClose int
  | EvStderr string
  | EvForkDaemon string
  | EvUsleep int
  | EvWrite int string int
  | EvRead int nat int
  | EvRaiseError int "string option"
  | EvFreeDomain virDomain
  | EvFreeNetwork virNetwork

text \<open>
  What the host answers during \<open>qemuOpenClientUNIX\<close>: the descriptor returned by the
  k-th call of \<open>socket\<close> (negative on failure), whether the k-th \<open>connect\<close> succeeds,
  the value of the environment variable \<open>LIBVIRT_QEMU_SERVER\<close>, and the paths for which
  \<open>access(path, X_OK | R_OK)\<close> returns 0. \<open>sun_path_size\<close> is
  \<open>sizeof(addr.sun_path)\<close> and \<open>BINDIR\<close> the build-time installation directory.
\<close>

record host =
  socket_result :: "nat \<Rightarrow> int"
  connect_ok :: "nat \<Rightarrow> bool"
  getenv_LIBVIRT_QEMU_SERVER :: "string option"
  access_xr :: "string \<Rightarrow> bool"
  sun_path_size :: nat
  BINDIR :: string

definition serverPaths :: "host \<Rightarrow> string list" where
  "serverPaths h = [BINDIR h @ ''/libvirt_qemu'', BINDIR h @ ''/libvirt_qemu_dbg'']"

text \<open>\<open>qemuFindServerPath\<close>: the debugging override first, then the first accessible path.\<close>

definition qemuFindServerPath :: "host \<Rightarrow> string option" where
  "qemuFindServerPath h =
     (case getenv_LIBVIRT_QEMU_SERVER h of
        Some debugQemu \<Rightarrow> Some debugQemu
      | None \<Rightarrow> find (access_xr h) (serverPaths h))"

text \<open>
  \<open>qemuForkServer\<close>, as seen by the calling process: \<open>-1\<close> when no executable is found,
  otherwise the daemon is forked (the child detaches and executes the path with
  \<open>--timeout 30\<close>; the parent waits for the intermediate process) and the result is 0
  whatever \<open>fork\<close> and \<open>waitpid\<close> returned.
\<close>

definition qemuForkServer :: "host \<Rightarrow> int \<times> event list" where
  "qemuForkServer h =
     (case qemuFindServerPath h of
        None \<Rightarrow> (-1, [EvStderr (''failed to find qemu'' @ [CHR 0x0A])])
      | Some proxyPath \<Rightarrow> (0, [EvForkDaemon proxyPath]))"

text \<open>
  The socket address: \<open>strncpy\<close> of at most \<open>sizeof(sun_path) - 1\<close> characters into the
  zeroed field, a leading \<open>@\<close> replaced by NUL (an abstract socket).
\<close>

definition sun_path_of :: "host \<Rightarrow> string \<Rightarrow> string" where
  "sun_path_of h path =
     (case take (sun_path_size h - 1) path of
        [] \<Rightarrow> []
      | c # cs \<Rightarrow> (if c = CHR ''@'' then NUL # cs else c # cs))"

text \<open>
  \<open>qemuOpenClientUNIX\<close>. The label \<open>retry\<close> is the recursive call; \<open>trials\<close> is the local
  counter, which is also the number of \<open>socket\<close> and \<open>connect\<close> calls made so far. The result
  is the return value, the connection and the events in the order they happened.
\<close>

function qemuOpenClientUNIX_retry ::
  "host \<Rightarrow> virConnect \<Rightarrow> string \<Rightarrow> int \<Rightarrow> nat \<Rightarrow> int \<times> virConnect \<times> event list" where
  "qemuOpenClientUNIX_retry h conn path autostart trials =
     (let fd = socket_result h trials in
      if fd < 0 then (-1, conn, [EvSocket fd])
      else if \<not> connect_ok h trials then
        (if autostart \<noteq> 0 \<and> trials < 3 then
           (case qemuForkServer h of (r, evs) \<Rightarrow>
              if r < 0 then
                (-1, conn, [EvSocket fd, EvConnect fd (sun_path_of h path), EvClose fd] @ evs)
              else
                (case qemuOpenClientUNIX_retry h conn path autostart (trials + 1) of
                   (ret, conn', rest) \<Rightarrow>
                     (ret, conn',
                      [EvSocket fd, EvConnect fd (sun_path_of h path), EvClose fd] @ evs @
                      [EvUsleep (5000 * int (trials + 1) * int (trials + 1))] @ rest)))
         else (-1, conn, [EvSocket fd, EvConnect fd (sun_path_of h path), EvClose fd]))
      else (0, conn\<lparr>qemud_fd := fd\<rparr>, [EvSocket fd, EvConnect fd (sun_path_of h path)]))"
  by pat_completeness auto
termination
  by (relation "measure (\<lambda>(h, conn, path, autostart, trials). 3 - trials)") auto

declare qemuOpenClientUNIX_retry.simps [simp del]

definition qemuOpenClientUNIX ::
  "host \<Rightarrow> virConnect \<Rightarrow> string \<Rightarrow> int \<Rightarrow> int \<times> virConnect \<times> event list" where
  "qemuOpenClientUNIX h conn path autostart = qemuOpenClientUNIX_retry h conn path autostart 0"

text \<open>\<open>qemuClose\<close>: closes the descriptor unless it is already \<open>-1\<close>; always returns 0.\<close>

definition qemuClose :: "virConnect \<Rightarrow> int \<times> virConnect \<times> event list" where
  "qemuClose conn =
     (if qemud_fd conn \<noteq> -1
      then (0, conn\<lparr>qemud_fd := -1\<rparr>, [EvClose (qemud_fd conn)])
      else (0, conn, []))"

subsection \<open>Packets\<close>

text \<open>
  \<open>struct qemud_packet_header\<close>: the message type and the declared size of the body.
  \<open>dataSize\<close> is the value of the field as an unsigned quantity, which is how the
  comparison with \<open>sizeof(union qemud_packet_data)\<close> reads it.
\<close>

record qemud_packet_header =
  type :: int
  dataSize :: nat

text \<open>
  \<open>union qemud_packet_data\<close>: a field \<open>member_field\<close> for every \<open>data.member.field\<close> the
  modelled functions read or write. An array is the list of its elements, as many as the
  array is declared with: the ids \<open>domains[QEMUD_MAX_NUM_DOMAINS]\<close>, the rows of names
  \<open>domains[QEMUD_MAX_NUM_DOMAINS][QEMUD_MAX_NAME_LEN]\<close> and
  \<open>networks[QEMUD_MAX_NUM_NETWORKS][QEMUD_MAX_NAME_LEN]\<close>, the character arrays. An
  index past the end of a list is an access past the end of the array.
\<close>

record qemud_packet_data =
  failureReply_code :: int
  failureReply_message :: string
  listDomainsReply_numDomains :: int
  listDomainsReply_domains :: "int list"
  domainCreateRequest_xml :: string
  domainCreateReply_name :: string
  domainCreateReply_uuid :: string
  domainCreateReply_id :: int
  domainDestroyRequest_id :: int
  domainGetInfoRequest_uuid :: string
  domainGetInfoReply_runstate :: int
  domainGetInfoReply_maxmem :: nat
  domainGetInfoReply_memory :: nat
  domainGetInfoReply_nrVirtCpu :: nat
  domainGetInfoReply_cpuTime :: nat
  listDefinedDomainsReply_numDomains :: int
  listDefinedDomainsReply_domains :: "string list"
  domainDefineRequest_xml :: string
  domainDefineReply_name :: string
  domainDefineReply_uuid :: string
  domainUndefineRequest_uuid :: string
  listNetworksReply_numNetworks :: int
  listNetworksReply_networks :: "string list"
  listDefinedNetworksReply_numNetworks :: int
  listDefinedNetworksReply_networks :: "string list"
  networkUndefineRequest_uuid :: string

record qemud_packet =
  header :: qemud_packet_header
  data :: qemud_packet_data

text \<open>
  The header \<open>protocol.h\<close>, which declares the packet structures, the message types and the
  size limits, and the libvirt headers that declare the error numbers are not among the
  sources. What the driver takes from them is a parameter of the model:
  \<^item> the sizes \<open>sizeof(struct qemud_packet_header)\<close>, \<open>sizeof(union qemud_packet_data)\<close>
    and \<open>sizeof(req.data.member)\<close> of the request members;
  \<^item> the object representation: \<open>packet_bytes\<close> gives the bytes of a packet in memory
    (the header, then the union), \<open>header_of\<close> reads a header from its bytes, and
    \<open>store_data bs d\<close> is the union whose first bytes were overwritten by \<open>bs\<close>, the rest
    being what \<open>d\<close> held;
  \<^item> the enumeration constants and limits, under their C names.
\<close>

record protocol =
  sizeof_qemud_packet_header :: nat
  sizeof_qemud_packet_data :: nat
  packet_bytes :: "qemud_packet \<Rightarrow> string"
  header_of :: "string \<Rightarrow> qemud_packet_header"
  store_data :: "string \<Rightarrow> qemud_packet_data \<Rightarrow> qemud_packet_data"
  sizeof_domainCreateRequest :: nat
  sizeof_domainDestroyRequest :: nat
  sizeof_domainGetInfoRequest :: nat
  sizeof_domainDefineRequest :: nat
  sizeof_domainUndefineRequest :: nat
  sizeof_networkUndefineRequest :: nat
  QEMUD_PKT_FAILURE :: int
  QEMUD_PKT_LIST_DOMAINS :: int
  QEMUD_PKT_DOMAIN_CREATE :: int
  QEMUD_PKT_DOMAIN_DESTROY :: int
  QEMUD_PKT_DOMAIN_GET_INFO :: int
  QEMUD_PKT_LIST_DEFINED_DOMAINS :: int
  QEMUD_PKT_DOMAIN_DEFINE :: int
  QEMUD_PKT_DOMAIN_UNDEFINE :: int
  QEMUD_PKT_LIST_NETWORKS :: int
  QEMUD_PKT_LIST_DEFINED_NETWORKS :: int
  QEMUD_PKT_NETWORK_UNDEFINE :: int
  QEMUD_MAX_XML_LEN :: nat
  QEMUD_MAX_NAME_LEN :: nat
  QEMUD_MAX_ERROR_LEN :: nat
  QEMUD_UUID_RAW_LEN :: nat
  QEMUD_STATE_RUNNING :: int
  QEMUD_STATE_PAUSED :: int
  QEMUD_STATE_STOPPED :: int
  VIR_ERR_OK :: int
  VIR_ERR_INTERNAL_ERROR :: int

subsection \<open>The socket, as the driver sees it\<close>

text \<open>
  The results of the coming \<open>write\<close> calls (an error, or the number of bytes the kernel is
  ready to take, of which at most the bytes offered are taken; once the list is used up
  every write takes all it is offered) and the coming input (an error, end of file, or a
  chunk of bytes, of which a \<open>read\<close> takes at most the count it asks for; once the list is
  used up the peer has closed the connection).
\<close>

datatype wres = WErr | WOk nat

datatype rres = RErr | REof | RData string

text \<open>
  The world a driver function runs in: the socket scripts, the log, the content of an
  uninitialised \<open>struct qemud_packet\<close> local, and the answers of the handle functions of
  libvirt's core (see \<open>virGetDomain\<close> below).
\<close>

record world =
  writes :: "wres list"
  reads :: "rres list"
  trace :: "event list"
  uninit :: qemud_packet
  virGetDomain_null :: bool
  virFreeDomain_result :: int
  virFreeNetwork_result :: int

definition emit :: "event \<Rightarrow> world \<Rightarrow> world" where
  "emit e w = w\<lparr>trace := trace w @ [e]\<rparr>"

definition sys_write :: "int \<Rightarrow> string \<Rightarrow> world \<Rightarrow> int \<times> world" where
  "sys_write fd buf w =
     (case writes w of
        [] \<Rightarrow> (int (length buf), emit (EvWrite fd buf (int (length buf))) w)
      | WErr # ws \<Rightarrow> (-1, emit (EvWrite fd buf (-1)) (w\<lparr>writes := ws\<rparr>))
      | WOk k # ws \<Rightarrow>
          (int (min k (length buf)),
           emit (EvWrite fd buf (int (min k (length buf)))) (w\<lparr>writes := ws\<rparr>)))"

definition sys_read :: "int \<Rightarrow> nat \<Rightarrow> world \<Rightarrow> (int \<times> string) \<times> world" where
  "sys_read fd n w =
     (case reads w of
        [] \<Rightarrow> ((0, []), emit (EvRead fd n 0) w)
      | RErr # rs \<Rightarrow> ((-1, []), emit (EvRead fd n (-1)) (w\<lparr>reads := rs\<rparr>))
      | REof # rs \<Rightarrow> ((0, []), emit (EvRead fd n 0) (w\<lparr>reads := rs\<rparr>))
      | RData bs # rs \<Rightarrow>
          ((int (length (take n bs)), take n bs),
           emit (EvRead fd n (int (length (take n bs))))
             (w\<lparr>reads := (if drop n bs = [] then rs else RData (drop n bs) # rs)\<rparr>)))"

subsection \<open>Raising errors\<close>

text \<open>\<open>qemuError\<close>: nothing is raised for \<open>VIR_ERR_OK\<close>.\<close>

definition qemuError ::
  "protocol \<Rightarrow> virConnect \<Rightarrow> virDomain option \<Rightarrow> int \<Rightarrow> string option \<Rightarrow> world \<Rightarrow> world" where
  "qemuError P con vdom error info w =
     (if error = VIR_ERR_OK P then w else emit (EvRaiseError error info) w)"

text \<open>
  A C string read from a character array stops at the first NUL. \<open>elem0\<close> is element 0 of
  an array (NUL for the array of no elements, which C does not have).
\<close>

definition c_str :: "string \<Rightarrow> string" where
  "c_str a = takeWhile (\<lambda>c. c \<noteq> NUL) a"

definition elem0 :: "string \<Rightarrow> char" where
  "elem0 a = (case a of [] \<Rightarrow> NUL | c # _ \<Rightarrow> c)"

text \<open>
  \<open>qemuPacketError\<close>: a null packet is a malformed packet; a failure packet carries the
  daemon's code and message; any other packet is of the wrong type. \<open>failure_info\<close> is
  the message handed on: the array is terminated at its last element when the message is
  not empty, and an empty message is passed as a null pointer.
\<close>

definition failure_info :: "protocol \<Rightarrow> string \<Rightarrow> string option" where
  "failure_info P message =
     (let message = (if elem0 message \<noteq> NUL
                     then message[QEMUD_MAX_ERROR_LEN P - 1 := NUL] else message)
      in if elem0 message \<noteq> NUL then Some (c_str message) else None)"

definition qemuPacketError ::
  "protocol \<Rightarrow> virConnect \<Rightarrow> virDomain option \<Rightarrow> qemud_packet option \<Rightarrow> world \<Rightarrow> world" where
  "qemuPacketError P con vdom pkt w =
     (case pkt of
        None \<Rightarrow> qemuError P con vdom (VIR_ERR_INTERNAL_ERROR P) (Some ''Malformed data packet'') w
      | Some p \<Rightarrow>
          if type (header p) = QEMUD_PKT_FAILURE P then
            qemuError P con vdom (failureReply_code (data p))
              (failure_info P (failureReply_message (data p))) w
          else qemuError P con vdom (VIR_ERR_INTERNAL_ERROR P) (Some ''Incorrect reply type'') w)"

subsection \<open>The transactor\<close>

text \<open>
  The three loops of \<open>qemuProcessRequest\<close>. \<open>send_loop\<close> is given the bytes still to be
  sent (\<open>out + outDone\<close>, \<open>outLeft\<close> of them) and says whether all of them went out.
  \<open>recv_loop\<close> is given \<open>inLeft\<close> and the bytes received so far and returns the bytes
  received, or \<open>None\<close> when a \<open>read\<close> returned 0 or less.
\<close>

function send_loop :: "int \<Rightarrow> string \<Rightarrow> world \<Rightarrow> bool \<times> world" where
  "send_loop fd out w =
     (if out = [] then (True, w)
      else (case sys_write fd out w of
              (got, w') \<Rightarrow>
                if got < 0 then (False, w') else send_loop fd (drop (nat got) out) w'))"
  by pat_completeness auto
termination
  by (relation "measure (\<lambda>(fd, out, w). length (writes w) + length out)")
     (auto simp: sys_write_def emit_def split: list.splits wres.splits)

declare send_loop.simps [simp del]

function recv_loop :: "int \<Rightarrow> nat \<Rightarrow> string \<Rightarrow> world \<Rightarrow> string option \<times> world" where
  "recv_loop fd inLeft got w =
     (if inLeft = 0 then (Some got, w)
      else (case sys_read fd inLeft w of
              ((cnt, bs), w') \<Rightarrow>
                if cnt \<le> 0 then (None, w')
                else recv_loop fd (inLeft - nat cnt) (got @ bs) w'))"
  by pat_completeness auto
termination
  by (relation "measure (\<lambda>(fd, inLeft, got, w). inLeft)") auto

declare recv_loop.simps [simp del]

text \<open>
  \<open>qemuProcessRequest\<close>: sends the first \<open>sizeof(header) + req->header.dataSize\<close> bytes
  of the request (\<open>outgoing\<close>), reads a header, rejects a declared size above the size
  of the union, reads the body over the caller's reply buffer and compares the types. The
  result is the reply when the C function returns 0 and \<open>None\<close> when it returns \<open>-1\<close>.
\<close>

definition outgoing :: "protocol \<Rightarrow> qemud_packet \<Rightarrow> string" where
  "outgoing P req =
     take (sizeof_qemud_packet_header P + dataSize (header req)) (packet_bytes P req)"

definition qemuProcessRequest ::
  "protocol \<Rightarrow> virConnect \<Rightarrow> virDomain option \<Rightarrow> qemud_packet \<Rightarrow> qemud_packet \<Rightarrow> world
   \<Rightarrow> qemud_packet option \<times> world" where
  "qemuProcessRequest P conn vdom req reply w =
     (let out = outgoing P req
      in case send_loop (qemud_fd conn) out w of
           (False, w1) \<Rightarrow> (None, w1)
         | (True, w1) \<Rightarrow>
             (case recv_loop (qemud_fd conn) (sizeof_qemud_packet_header P) [] w1 of
                (None, w2) \<Rightarrow> (None, w2)
              | (Some hb, w2) \<Rightarrow>
                  (let hdr = header_of P hb in
                   if dataSize hdr > sizeof_qemud_packet_data P
                   then (None, qemuPacketError P conn vdom None w2)
                   else
                     (case recv_loop (qemud_fd conn) (dataSize hdr) [] w2 of
                        (None, w3) \<Rightarrow> (None, w3)
                      | (Some body, w3) \<Rightarrow>
                          (let reply' = \<lparr>header = hdr, data = store_data P body (data reply)\<rparr>
                           in if type hdr \<noteq> type (header req)
                              then (None, qemuPacketError P conn vdom (Some reply') w3)
                              else (Some reply', w3))))))"

subsection \<open>What the model adds to C's return values\<close>

text \<open>
  A function that can read or write past an array has a result \<open>Undefined\<close> for the
  executions that do so: C says nothing about what happens then.
\<close>

datatype 'a outcome = Returns 'a | Undefined

text \<open>
  \<open>int len = strlen(s)\<close>: the length, a \<open>size_t\<close>, is converted to a 32-bit \<open>int\<close>.
\<close>

definition int_of_size_t :: "nat \<Rightarrow> int" where
  "int_of_size_t n = (let m = int n mod 2 ^ 32 in if m < 2 ^ 31 then m else m - 2 ^ 32)"

text \<open>
  \<open>strcpy(dest, src)\<close> into an array declared with \<open>cap\<close> elements: the string and its
  terminator are written over the first elements, provided they fit.
\<close>

definition strcpy :: "nat \<Rightarrow> string \<Rightarrow> string \<Rightarrow> string option" where
  "strcpy cap dest src =
     (if length src < cap then Some (src @ NUL # drop (length src + 1) dest) else None)"

text \<open>
  Modelled from the spec: \<open>virGetDomain\<close>, \<open>virFreeDomain\<close> and \<open>virFreeNetwork\<close> belong
  to libvirt's core and are not among the sources. By the spec a handle (name, UUID and a
  numeric id that is \<open>-1\<close> when the domain is not running) is created locally from a reply
  and released by undefine. Whether \<open>virGetDomain\<close> returns a null pointer and what the two
  release functions return is the world's choice; a release is logged.
\<close>

definition virGetDomain :: "world \<Rightarrow> virConnect \<Rightarrow> string \<Rightarrow> string \<Rightarrow> virDomain option" where
  "virGetDomain w conn name uuid =
     (if virGetDomain_null w then None
      else Some \<lparr>dom_conn = conn, dom_name = name, dom_uuid = uuid, dom_id = -1\<rparr>)"

definition virFreeDomain :: "virConnect \<Rightarrow> virDomain \<Rightarrow> world \<Rightarrow> int \<times> world" where
  "virFreeDomain conn domain w = (virFreeDomain_result w, emit (EvFreeDomain domain) w)"

definition virFreeNetwork :: "virConnect \<Rightarrow> virNetwork \<Rightarrow> world \<Rightarrow> int \<times> world" where
  "virFreeNetwork conn network w = (virFreeNetwork_result w, emit (EvFreeNetwork network) w)"

subsection \<open>Listing domains and networks\<close>

text \<open>
  A request with no body: the two assignments to \<open>req.header\<close>; the rest of the local
  \<open>req\<close> stays uninitialised.
\<close>

definition empty_request :: "world \<Rightarrow> int \<Rightarrow> qemud_packet" where
  "empty_request w t = (uninit w)\<lparr>header := \<lparr>type = t, dataSize = 0\<rparr>\<rparr>"

text \<open>
  The loop \<open>for (i = 0; i < nDomains; i++) ids[i] = reply.data.listDomainsReply.domains[i]\<close>.
  \<open>ids\<close> is the caller's array, with as many elements as the list has, and
  \<open>domains\<close> the array of the reply. The count is not compared with the size of
  either: an iteration that reads past the reply's array or writes past the caller's is
  undefined.
\<close>

function copy_ids :: "int list \<Rightarrow> int \<Rightarrow> nat \<Rightarrow> int list \<Rightarrow> int list outcome" where
  "copy_ids domains nDomains i ids =
     (if int i < nDomains then
        (if i < length domains \<and> i < length ids
         then copy_ids domains nDomains (i + 1) (ids[i := domains ! i])
         else Undefined)
      else Returns ids)"
  by pat_completeness auto
termination
  by (relation "measure (\<lambda>(domains, nDomains, i, ids). nat (nDomains - int i))") auto

declare copy_ids.simps [simp del]

definition qemuListDomains ::
  "protocol \<Rightarrow> virConnect \<Rightarrow> int list \<Rightarrow> int \<Rightarrow> world \<Rightarrow> (int \<times> int list) outcome \<times> world" where
  "qemuListDomains P conn ids maxids w =
     (case qemuProcessRequest P conn None (empty_request w (QEMUD_PKT_LIST_DOMAINS P))
             (uninit w) w of
        (None, w1) \<Rightarrow> (Returns (-1, ids), w1)
      | (Some reply, w1) \<Rightarrow>
          (let nDomains = listDomainsReply_numDomains (data reply);
               nDomains = (if nDomains > maxids then maxids else nDomains)
           in case copy_ids (listDomainsReply_domains (data reply)) nDomains 0 ids of
                Undefined \<Rightarrow> (Undefined, w1)
              | Returns ids' \<Rightarrow> (Returns (nDomains, ids'), w1)))"

text \<open>
  The loop of the three functions that list names: row \<open>i\<close> of the reply is terminated at
  its last element and duplicated into \<open>names[i]\<close> (\<open>strdup\<close> is taken to succeed).
  \<open>row_name\<close> is the string duplicated, for a row of the reply's array. As in
  \<open>copy_ids\<close>, an iteration whose row lies past the reply's array (a write and a read
  there) or whose \<open>names[i]\<close> lies past the caller's array is undefined.
\<close>

definition row_name :: "protocol \<Rightarrow> string list \<Rightarrow> nat \<Rightarrow> string" where
  "row_name P rows i = c_str ((rows ! i)[QEMUD_MAX_NAME_LEN P - 1 := NUL])"

function copy_names ::
  "protocol \<Rightarrow> string list \<Rightarrow> int \<Rightarrow> nat \<Rightarrow> string list \<Rightarrow> string list outcome" where
  "copy_names P rows n i names =
     (if int i < n then
        (if i < length rows \<and> i < length names
         then copy_names P rows n (i + 1) (names[i := row_name P rows i])
         else Undefined)
      else Returns names)"
  by pat_completeness auto
termination
  by (relation "measure (\<lambda>(P, rows, n, i, names). nat (n - int i))") auto

declare copy_names.simps [simp del]

definition qemuListDefinedDomains ::
  "protocol \<Rightarrow> virConnect \<Rightarrow> string list \<Rightarrow> int \<Rightarrow> world
   \<Rightarrow> (int \<times> string list) outcome \<times> world" where
  "qemuListDefinedDomains P conn names maxnames w =
     (case qemuProcessRequest P conn None (empty_request w (QEMUD_PKT_LIST_DEFINED_DOMAINS P))
             (uninit w) w of
        (None, w1) \<Rightarrow> (Returns (-1, names), w1)
      | (Some reply, w1) \<Rightarrow>
          (let nDomains = listDefinedDomainsReply_numDomains (data reply);
               nDomains = (if nDomains > maxnames then maxnames else nDomains)
           in case copy_names P (listDefinedDomainsReply_domains (data reply)) nDomains 0 names of
                Undefined \<Rightarrow> (Undefined, w1)
              | Returns names' \<Rightarrow> (Returns (nDomains, names'), w1)))"

definition qemuListNetworks ::
  "protocol \<Rightarrow> virConnect \<Rightarrow> string list \<Rightarrow> int \<Rightarrow> world
   \<Rightarrow> (int \<times> string list) outcome \<times> world" where
  "qemuListNetworks P conn names maxnames w =
     (case qemuProcessRequest P conn None (empty_request w (QEMUD_PKT_LIST_NETWORKS P))
             (uninit w) w of
        (None, w1) \<Rightarrow> (Returns (-1, names), w1)
      | (Some reply, w1) \<Rightarrow>
          (let nNetworks = listNetworksReply_numNetworks (data reply)
           in if nNetworks > maxnames then (Returns (-1, names), w1)
              else
                (case copy_names P (listNetworksReply_networks (data reply)) nNetworks 0 names of
                   Undefined \<Rightarrow> (Undefined, w1)
                 | Returns names' \<Rightarrow> (Returns (nNetworks, names'), w1))))"

definition qemuListDefinedNetworks ::
  "protocol \<Rightarrow> virConnect \<Rightarrow> string list \<Rightarrow> int \<Rightarrow> world
   \<Rightarrow> (int \<times> string list) outcome \<times> world" where
  "qemuListDefinedNetworks P conn names maxnames w =
     (case qemuProcessRequest P conn None (empty_request w (QEMUD_PKT_LIST_DEFINED_NETWORKS P))
             (uninit w) w of
        (None, w1) \<Rightarrow> (Returns (-1, names), w1)
      | (Some reply, w1) \<Rightarrow>
          (let nNetworks = listDefinedNetworksReply_numNetworks (data reply)
           in if nNetworks > maxnames then (Returns (-1, names), w1)
              else
                (case copy_names P (listDefinedNetworksReply_networks (data reply))
                        nNetworks 0 names of
                   Undefined \<Rightarrow> (Undefined, w1)
                 | Returns names' \<Rightarrow> (Returns (nNetworks, names'), w1))))"

subsection \<open>Creating, defining and undefining\<close>

text \<open>
  \<open>qemuDomainCreateLinux\<close>. The result is the handle, or \<open>None\<close> for the null pointer.
  The document is a C string (its characters, without the terminator).
\<close>

definition qemuDomainCreateLinux ::
  "protocol \<Rightarrow> virConnect \<Rightarrow> string \<Rightarrow> world \<Rightarrow> virDomain option outcome \<times> world" where
  "qemuDomainCreateLinux P conn xmlDesc w =
     (let len = int_of_size_t (length xmlDesc)
      in if len > int (QEMUD_MAX_XML_LEN P) - 1 then (Returns None, w)
         else
           (case strcpy (QEMUD_MAX_XML_LEN P) (domainCreateRequest_xml (data (uninit w))) xmlDesc of
              None \<Rightarrow> (Undefined, w)
            | Some xml \<Rightarrow>
                (let req = \<lparr>header = \<lparr>type = QEMUD_PKT_DOMAIN_CREATE P,
                                       dataSize = sizeof_domainCreateRequest P\<rparr>,
                            data = (data (uninit w))
                              \<lparr>domainCreateRequest_xml := xml[QEMUD_MAX_XML_LEN P - 1 := NUL]\<rparr>\<rparr>
                 in case qemuProcessRequest P conn None req (uninit w) w of
                      (None, w1) \<Rightarrow> (Returns None, w1)
                    | (Some reply, w1) \<Rightarrow>
                        (let name = (domainCreateReply_name (data reply))
                                      [QEMUD_MAX_NAME_LEN P - 1 := NUL]
                         in case virGetDomain w1 conn (c_str name)
                                   (domainCreateReply_uuid (data reply)) of
                              None \<Rightarrow> (Returns None, w1)
                            | Some d \<Rightarrow>
                                (Returns (Some (d\<lparr>dom_id := domainCreateReply_id (data reply)\<rparr>)),
                                 w1)))))"

definition qemuDomainDefineXML ::
  "protocol \<Rightarrow> virConnect \<Rightarrow> string \<Rightarrow> world \<Rightarrow> virDomain option outcome \<times> world" where
  "qemuDomainDefineXML P conn xml w =
     (let len = int_of_size_t (length xml)
      in if len > int (QEMUD_MAX_XML_LEN P) - 1 then (Returns None, w)
         else
           (case strcpy (QEMUD_MAX_XML_LEN P) (domainDefineRequest_xml (data (uninit w))) xml of
              None \<Rightarrow> (Undefined, w)
            | Some buf \<Rightarrow>
                (let req = \<lparr>header = \<lparr>type = QEMUD_PKT_DOMAIN_DEFINE P,
                                       dataSize = sizeof_domainDefineRequest P\<rparr>,
                            data = (data (uninit w))
                              \<lparr>domainDefineRequest_xml := buf[QEMUD_MAX_XML_LEN P - 1 := NUL]\<rparr>\<rparr>
                 in case qemuProcessRequest P conn None req (uninit w) w of
                      (None, w1) \<Rightarrow> (Returns None, w1)
                    | (Some reply, w1) \<Rightarrow>
                        (let name = (domainDefineReply_name (data reply))
                                      [QEMUD_MAX_NAME_LEN P - 1 := NUL]
                         in case virGetDomain w1 conn (c_str name)
                                   (domainDefineReply_uuid (data reply)) of
                              None \<Rightarrow> (Returns None, w1)
                            | Some d \<Rightarrow> (Returns (Some (d\<lparr>dom_id := -1\<rparr>)), w1)))))"

text \<open>
  \<open>qemuUndefine\<close> and \<open>qemuNetworkUndefine\<close>: the request carries
  \<open>QEMUD_UUID_RAW_LEN\<close> bytes of the handle's UUID; the label \<open>cleanup\<close> is reached
  whether the exchange failed (\<open>ret = -1\<close>) or not, and a failing release also gives
  \<open>-1\<close>.
\<close>

definition undefine_request :: "protocol \<Rightarrow> virDomain \<Rightarrow> world \<Rightarrow> qemud_packet" where
  "undefine_request P d w =
     \<lparr>header = \<lparr>type = QEMUD_PKT_DOMAIN_UNDEFINE P, dataSize = sizeof_domainUndefineRequest P\<rparr>,
      data = (data (uninit w))
        \<lparr>domainUndefineRequest_uuid := take (QEMUD_UUID_RAW_LEN P) (dom_uuid d)\<rparr>\<rparr>"

definition qemuUndefine :: "protocol \<Rightarrow> virDomain \<Rightarrow> world \<Rightarrow> int \<times> world" where
  "qemuUndefine P d w =
     (case qemuProcessRequest P (dom_conn d) None (undefine_request P d w) (uninit w) w of
        (r, w1) \<Rightarrow>
          (let ret = (if r = None then -1 else 0)
           in case virFreeDomain (dom_conn d) d w1 of
                (f, w2) \<Rightarrow> (if f < 0 then -1 else ret, w2)))"

definition network_undefine_request :: "protocol \<Rightarrow> virNetwork \<Rightarrow> world \<Rightarrow> qemud_packet" where
  "network_undefine_request P network w =
     \<lparr>header = \<lparr>type = QEMUD_PKT_NETWORK_UNDEFINE P,
                 dataSize = sizeof_networkUndefineRequest P\<rparr>,
      data = (data (uninit w))
        \<lparr>networkUndefineRequest_uuid := take (QEMUD_UUID_RAW_LEN P) (net_uuid network)\<rparr>\<rparr>"

definition qemuNetworkUndefine :: "protocol \<Rightarrow> virNetwork \<Rightarrow> world \<Rightarrow> int \<times> world" where
  "qemuNetworkUndefine P network w =
     (case qemuProcessRequest P (net_conn network) None (network_undefine_request P network w)
             (uninit w) w of
        (r, w1) \<Rightarrow>
          (let ret = (if r = None then -1 else 0)
           in case virFreeNetwork (net_conn network) network w1 of
                (f, w2) \<Rightarrow> (if f < 0 then -1 else ret, w2)))"

subsection \<open>Destroying, shutting down and querying a domain\<close>

definition destroy_request :: "protocol \<Rightarrow> virDomain \<Rightarrow> world \<Rightarrow> qemud_packet" where
  "destroy_request P domain w =
     \<lparr>header = \<lparr>type = QEMUD_PKT_DOMAIN_DESTROY P, dataSize = sizeof_domainDestroyRequest P\<rparr>,
      data = (data (uninit w))\<lparr>domainDestroyRequest_id := dom_id domain\<rparr>\<rparr>"

definition qemuDestroyDomain :: "protocol \<Rightarrow> virDomain \<Rightarrow> world \<Rightarrow> int \<times> world" where
  "qemuDestroyDomain P domain w =
     (case qemuProcessRequest P (dom_conn domain) None (destroy_request P domain w) (uninit w) w of
        (None, w1) \<Rightarrow> (-1, w1)
      | (Some reply, w1) \<Rightarrow> (0, w1))"

definition qemuShutdownDomain :: "protocol \<Rightarrow> virDomain \<Rightarrow> world \<Rightarrow> int \<times> world" where
  "qemuShutdownDomain P domain w = qemuDestroyDomain P domain w"

text \<open>
  The states of \<open>virDomainInfo\<close>, in the order of libvirt's enumeration; the first is the
  value 0 that \<open>memset\<close> leaves. The numeric fields are copied from the reply;
  \<open>nrVirtCpu\<close> is an \<open>unsigned short\<close> and keeps the low 16 bits.
\<close>

datatype virDomainState =
    VIR_DOMAIN_NOSTATE
  | VIR_DOMAIN_RUNNING
  | VIR_DOMAIN_BLOCKED
  | VIR_DOMAIN_PAUSED
  | VIR_DOMAIN_SHUTDOWN
  | VIR_DOMAIN_SHUTOFF
  | VIR_DOMAIN_CRASHED

record virDomainInfo =
  state :: virDomainState
  maxMem :: nat
  memory :: nat
  nrVirtCpu :: nat
  cpuTime :: nat

definition zeroed_info :: virDomainInfo where
  "zeroed_info = \<lparr>state = VIR_DOMAIN_NOSTATE, maxMem = 0, memory = 0, nrVirtCpu = 0, cpuTime = 0\<rparr>"

text \<open>The \<open>switch\<close> on the run-state of the reply; \<open>None\<close> is the \<open>default\<close> label.\<close>

definition runstate_switch :: "protocol \<Rightarrow> int \<Rightarrow> virDomainState option" where
  "runstate_switch P runstate =
     (if runstate = QEMUD_STATE_RUNNING P then Some VIR_DOMAIN_RUNNING
      else if runstate = QEMUD_STATE_PAUSED P then Some VIR_DOMAIN_PAUSED
      else if runstate = QEMUD_STATE_STOPPED P then Some VIR_DOMAIN_SHUTOFF
      else None)"

definition get_info_request :: "protocol \<Rightarrow> virDomain \<Rightarrow> world \<Rightarrow> qemud_packet" where
  "get_info_request P domain w =
     \<lparr>header = \<lparr>type = QEMUD_PKT_DOMAIN_GET_INFO P, dataSize = sizeof_domainGetInfoRequest P\<rparr>,
      data = (data (uninit w))
        \<lparr>domainGetInfoRequest_uuid := take (QEMUD_UUID_RAW_LEN P) (dom_uuid domain)\<rparr>\<rparr>"

definition qemuGetDomainInfo ::
  "protocol \<Rightarrow> virDomain \<Rightarrow> virDomainInfo \<Rightarrow> world \<Rightarrow> int \<times> virDomainInfo \<times> world" where
  "qemuGetDomainInfo P domain info w =
     (case qemuProcessRequest P (dom_conn domain) None (get_info_request P domain w)
             (uninit w) w of
        (None, w1) \<Rightarrow> (-1, info, w1)
      | (Some reply, w1) \<Rightarrow>
          (case runstate_switch P (domainGetInfoReply_runstate (data reply)) of
             None \<Rightarrow> (-1, zeroed_info, w1)
           | Some s \<Rightarrow>
               (0, zeroed_info
                     \<lparr>state := s,
                      maxMem := domainGetInfoReply_maxmem (data reply),
                      memory := domainGetInfoReply_memory (data reply),
                      nrVirtCpu := domainGetInfoReply_nrVirtCpu (data reply) mod 2 ^ 16,
                      cpuTime := domainGetInfoReply_cpuTime (data reply)\<rparr>, w1)))"

subsection \<open>Reading the log of a connection attempt\<close>

text \<open>
  The daemons forked, the sleeps and the connect calls of a log, each in order, and the
  three events of a failed connection attempt number \<open>k\<close>.
\<close>

fun spawned :: "event \<Rightarrow> string list" where
  "spawned (EvForkDaemon p) = [p]"
| "spawned _ = []"

fun slept :: "event \<Rightarrow> int list" where
  "slept (EvUsleep n) = [n]"
| "slept _ = []"

fun connected :: "event \<Rightarrow> int list" where
  "connected (EvConnect fd a) = [fd]"
| "connected _ = []"

definition spawns :: "event list \<Rightarrow> string list" where
  "spawns evs = concat (map spawned evs)"

definition sleeps :: "event list \<Rightarrow> int list" where
  "sleeps evs = concat (map slept evs)"

definition connects :: "event list \<Rightarrow> int list" where
  "connects evs = concat (map connected evs)"

definition attempt :: "host \<Rightarrow> string \<Rightarrow> nat \<Rightarrow> event list" where
  "attempt h path k =
     [EvSocket (socket_result h k), EvConnect (socket_result h k) (sun_path_of h path),
      EvClose (socket_result h k)]"

text \<open>
  Two hosts on which nothing listens on the socket: one has the daemon installed, the other
  has no daemon executable at all.
\<close>

definition host_with_daemon :: host where
  "host_with_daemon =
     \<lparr>socket_result = (\<lambda>k. 3), connect_ok = (\<lambda>k. False),
      getenv_LIBVIRT_QEMU_SERVER = None,
      access_xr = (\<lambda>p. p = ''/usr/bin/libvirt_qemu''),
      sun_path_size = 108, BINDIR = ''/usr/bin''\<rparr>"

definition host_without_daemon :: host where
  "host_without_daemon =
     \<lparr>socket_result = (\<lambda>k. 3), connect_ok = (\<lambda>k. False),
      getenv_LIBVIRT_QEMU_SERVER = None,
      access_xr = (\<lambda>p. False),
      sun_path_size = 108, BINDIR = ''/usr/bin''\<rparr>"

subsection \<open>Reading the log of an exchange\<close>

text \<open>
  Kinds of events, the number of bytes a log shows as read, and the three stages of an
  exchange, each run on the world its predecessor left: the request sent, the header read,
  the body read.
\<close>

fun is_read :: "event \<Rightarrow> bool" where
  "is_read (EvRead fd n r) = True"
| "is_read _ = False"

fun is_write :: "event \<Rightarrow> bool" where
  "is_write (EvWrite fd buf r) = True"
| "is_write _ = False"

fun is_raise :: "event \<Rightarrow> bool" where
  "is_raise (EvRaiseError c i) = True"
| "is_raise _ = False"

fun is_release :: "event \<Rightarrow> bool" where
  "is_release (EvFreeDomain d) = True"
| "is_release (EvFreeNetwork n) = True"
| "is_release _ = False"

fun got_bytes :: "event \<Rightarrow> int" where
  "got_bytes (EvRead fd n r) = (if 0 < r then r else 0)"
| "got_bytes _ = 0"

definition bytes_read :: "event list \<Rightarrow> int" where
  "bytes_read evs = sum_list (map got_bytes evs)"

definition sent :: "protocol \<Rightarrow> virConnect \<Rightarrow> qemud_packet \<Rightarrow> world \<Rightarrow> bool \<times> world" where
  "sent P conn req w = send_loop (qemud_fd conn) (outgoing P req) w"

definition header_read ::
  "protocol \<Rightarrow> virConnect \<Rightarrow> qemud_packet \<Rightarrow> world \<Rightarrow> string option \<times> world" where
  "header_read P conn req w =
     recv_loop (qemud_fd conn) (sizeof_qemud_packet_header P) [] (snd (sent P conn req w))"

definition body_read ::
  "protocol \<Rightarrow> virConnect \<Rightarrow> qemud_packet \<Rightarrow> world \<Rightarrow> string option \<times> world" where
  "body_read P conn req w =
     (case header_read P conn req w of
        (None, w2) \<Rightarrow> (None, w2)
      | (Some hb, w2) \<Rightarrow> recv_loop (qemud_fd conn) (dataSize (header_of P hb)) [] w2)"

subsection \<open>A layout and worlds to run the model on\<close>

text \<open>
  One instance of the parameters, used to run the model on concrete inputs: 32-bit
  little-endian fields, an 8-byte header, names of 8 and error messages of 16 characters,
  documents of 4096, arrays of 100 ids or names. The theorems that follow hold for every layout; this one only serves
  to evaluate them.
\<close>

definition le32 :: "string \<Rightarrow> nat" where
  "le32 bs = foldr (\<lambda>c n. of_char c + 256 * n) (take 4 bs) 0"

definition sle32 :: "string \<Rightarrow> int" where
  "sle32 bs = (let n = int (le32 bs) in if n < 2 ^ 31 then n else n - 2 ^ 32)"

definition le32_bytes :: "nat \<Rightarrow> string" where
  "le32_bytes n =
     [char_of n, char_of (n div 256), char_of (n div 65536), char_of (n div 16777216)]"

definition overlay :: "string \<Rightarrow> string \<Rightarrow> string" where
  "overlay bs old = bs @ drop (length bs) old"

definition sample_union_bytes :: "qemud_packet \<Rightarrow> string" where
  "sample_union_bytes p =
     (let d = data p; t = type (header p)
      in if t = 11 then le32_bytes (nat (domainDestroyRequest_id d mod 2 ^ 32))
         else if t = 12 then domainGetInfoRequest_uuid d
         else if t = 20 then domainUndefineRequest_uuid d
         else if t = 29 then networkUndefineRequest_uuid d
         else if t = 5 then domainCreateRequest_xml d
         else if t = 19 then domainDefineRequest_xml d
         else [])"

definition sample_packet_bytes :: "qemud_packet \<Rightarrow> string" where
  "sample_packet_bytes p =
     le32_bytes (nat (type (header p))) @ le32_bytes (dataSize (header p)) @ sample_union_bytes p"

definition sample_header_of :: "string \<Rightarrow> qemud_packet_header" where
  "sample_header_of hb = \<lparr>type = int (le32 hb), dataSize = le32 (drop 4 hb)\<rparr>"

definition sample_store_data :: "string \<Rightarrow> qemud_packet_data \<Rightarrow> qemud_packet_data" where
  "sample_store_data bs d =
     d\<lparr>failureReply_code := sle32 bs,
       failureReply_message := take 16 (overlay (drop 4 bs) (failureReply_message d)),
       listDomainsReply_numDomains := sle32 bs,
       listDomainsReply_domains := map (\<lambda>i. sle32 (drop (4 + 4 * i) bs)) [0..<100],
       domainCreateReply_id := sle32 bs,
       domainCreateReply_uuid := take 16 (drop 4 bs),
       domainCreateReply_name := take 8 (drop 20 bs),
       domainDefineReply_uuid := take 16 bs,
       domainDefineReply_name := take 8 (drop 16 bs),
       domainGetInfoReply_runstate := sle32 bs,
       domainGetInfoReply_maxmem := le32 (drop 4 bs),
       domainGetInfoReply_memory := le32 (drop 8 bs),
       domainGetInfoReply_nrVirtCpu := le32 (drop 12 bs),
       domainGetInfoReply_cpuTime := le32 (drop 16 bs),
       listDefinedDomainsReply_numDomains := sle32 bs,
       listDefinedDomainsReply_domains := map (\<lambda>i. take 8 (drop (4 + 8 * i) bs)) [0..<100],
       listNetworksReply_numNetworks := sle32 bs,
       listNetworksReply_networks := map (\<lambda>i. take 8 (drop (4 + 8 * i) bs)) [0..<100],
       listDefinedNetworksReply_numNetworks := sle32 bs,
       listDefinedNetworksReply_networks :=
         map (\<lambda>i. take 8 (drop (4 + 8 * i) bs)) [0..<100]\<rparr>"

definition sample_layout :: protocol where
  "sample_layout =
     \<lparr>sizeof_qemud_packet_header = 8, sizeof_qemud_packet_data = 4100,
      packet_bytes = sample_packet_bytes, header_of = sample_header_of,
      store_data = sample_store_data,
      sizeof_domainCreateRequest = 4096, sizeof_domainDestroyRequest = 4,
      sizeof_domainGetInfoRequest = 16, sizeof_domainDefineRequest = 4096,
      sizeof_domainUndefineRequest = 16, sizeof_networkUndefineRequest = 16,
      QEMUD_PKT_FAILURE = 0, QEMUD_PKT_LIST_DOMAINS = 3, QEMUD_PKT_DOMAIN_CREATE = 5,
      QEMUD_PKT_DOMAIN_DESTROY = 11, QEMUD_PKT_DOMAIN_GET_INFO = 12,
      QEMUD_PKT_LIST_DEFINED_DOMAINS = 16, QEMUD_PKT_DOMAIN_DEFINE = 19,
      QEMUD_PKT_DOMAIN_UNDEFINE = 20, QEMUD_PKT_LIST_NETWORKS = 22,
      QEMUD_PKT_LIST_DEFINED_NETWORKS = 24, QEMUD_PKT_NETWORK_UNDEFINE = 29,
      QEMUD_MAX_XML_LEN = 4096, QEMUD_MAX_NAME_LEN = 8, QEMUD_MAX_ERROR_LEN = 16,
      QEMUD_UUID_RAW_LEN = 16,
      QEMUD_STATE_RUNNING = 1, QEMUD_STATE_PAUSED = 2, QEMUD_STATE_STOPPED = 3,
      VIR_ERR_OK = 0, VIR_ERR_INTERNAL_ERROR = 1\<rparr>"

definition blank_packet :: qemud_packet where
  "blank_packet =
     \<lparr>header = \<lparr>type = 0, dataSize = 0\<rparr>,
      data = \<lparr>failureReply_code = 0, failureReply_message = replicate 16 NUL,
              listDomainsReply_numDomains = 0, listDomainsReply_domains = replicate 100 0,
              domainCreateRequest_xml = replicate 4096 NUL,
              domainCreateReply_name = replicate 8 NUL,
              domainCreateReply_uuid = replicate 16 NUL, domainCreateReply_id = 0,
              domainDestroyRequest_id = 0, domainGetInfoRequest_uuid = replicate 16 NUL,
              domainGetInfoReply_runstate = 0, domainGetInfoReply_maxmem = 0,
              domainGetInfoReply_memory = 0, domainGetInfoReply_nrVirtCpu = 0,
              domainGetInfoReply_cpuTime = 0,
              listDefinedDomainsReply_numDomains = 0,
              listDefinedDomainsReply_domains = replicate 100 (replicate 8 NUL),
              domainDefineRequest_xml = replicate 4096 NUL,
              domainDefineReply_name = replicate 8 NUL,
              domainDefineReply_uuid = replicate 16 NUL,
              domainUndefineRequest_uuid = replicate 16 NUL,
              listNetworksReply_numNetworks = 0,
              listNetworksReply_networks = replicate 100 (replicate 8 NUL),
              listDefinedNetworksReply_numNetworks = 0,
              listDefinedNetworksReply_networks = replicate 100 (replicate 8 NUL),
              networkUndefineRequest_uuid = replicate 16 NUL\<rparr>\<rparr>"

text \<open>
  A world whose socket accepts every write and delivers the given input, then closes; and
  the world that delivers one chunk holding a header and a body.
\<close>

definition world_with_input :: "rres list \<Rightarrow> world" where
  "world_with_input input =
     \<lparr>writes = [], reads = input, trace = [], uninit = blank_packet,
      virGetDomain_null = False, virFreeDomain_result = 0, virFreeNetwork_result = 0\<rparr>"

definition reply_world :: "string \<Rightarrow> string \<Rightarrow> world" where
  "reply_world hb body = world_with_input [RData (hb @ body)]"

definition sample_reply :: "string \<Rightarrow> string \<Rightarrow> qemud_packet" where
  "sample_reply hb body =
     \<lparr>header = sample_header_of hb, data = sample_store_data body (data blank_packet)\<rparr>"

definition sample_conn :: virConnect where
  "sample_conn = \<lparr>qemud_fd = 5\<rparr>"

text \<open>A list-domains header that declares a body of 5000 bytes.\<close>

definition oversize_header :: string where
  "oversize_header =
     [CHR 0x03, CHR 0x00, CHR 0x00, CHR 0x00, CHR 0x88, CHR 0x13, CHR 0x00, CHR 0x00]"

text \<open>
  A failure packet: the header (type 0, 20 bytes of body) and the body, a code followed by
  the message. The two arrive in separate chunks.
\<close>

definition failure_header :: string where
  "failure_header =
     [CHR 0x00, CHR 0x00, CHR 0x00, CHR 0x00, CHR 0x14, CHR 0x00, CHR 0x00, CHR 0x00]"

definition failure_body :: "string \<Rightarrow> string" where
  "failure_body code = code @ ''no such domain'' @ [NUL, NUL]"

definition failure_world :: "string \<Rightarrow> world" where
  "failure_world code = world_with_input [RData failure_header, RData (failure_body code)]"

definition code_9 :: string where
  "code_9 = [CHR 0x09, CHR 0x00, CHR 0x00, CHR 0x00]"

definition code_0 :: string where
  "code_0 = [CHR 0x00, CHR 0x00, CHR 0x00, CHR 0x00]"

text \<open>
  A list-domains reply that reports five running domains, with ids 1 to 5, and a body of the
  same size that reports 200 of them, twice what the array of the reply holds.
\<close>

definition domains_header :: string where
  "domains_header =
     [CHR 0x03, CHR 0x00, CHR 0x00, CHR 0x00, CHR 0x18, CHR 0x00, CHR 0x00, CHR 0x00]"

definition domains_body :: string where
  "domains_body =
     [CHR 0x05, CHR 0x00, CHR 0x00, CHR 0x00,
      CHR 0x01, CHR 0x00, CHR 0x00, CHR 0x00,
      CHR 0x02, CHR 0x00, CHR 0x00, CHR 0x00,
      CHR 0x03, CHR 0x00, CHR 0x00, CHR 0x00,
      CHR 0x04, CHR 0x00, CHR 0x00, CHR 0x00,
      CHR 0x05, CHR 0x00, CHR 0x00, CHR 0x00]"

definition overfull_body :: string where
  "overfull_body =
     [CHR 0xC8, CHR 0x00, CHR 0x00, CHR 0x00,
      CHR 0x01, CHR 0x00, CHR 0x00, CHR 0x00,
      CHR 0x02, CHR 0x00, CHR 0x00, CHR 0x00,
      CHR 0x03, CHR 0x00, CHR 0x00, CHR 0x00,
      CHR 0x04, CHR 0x00, CHR 0x00, CHR 0x00,
      CHR 0x05, CHR 0x00, CHR 0x00, CHR 0x00]"


text \<open>
  A reply that lists three names, \<open>vm1\<close>, \<open>vm2\<close> and \<open>vm3\<close>, under a header of the
  given type.
\<close>

definition names_header :: "char \<Rightarrow> string" where
  "names_header t = [t, CHR 0x00, CHR 0x00, CHR 0x00, CHR 0x1C, CHR 0x00, CHR 0x00, CHR 0x00]"

definition names_body :: string where
  "names_body =
     [CHR 0x03, CHR 0x00, CHR 0x00, CHR 0x00] @
     ''vm1'' @ [NUL, NUL, NUL, NUL, NUL] @
     ''vm2'' @ [NUL, NUL, NUL, NUL, NUL] @
     ''vm3'' @ [NUL, NUL, NUL, NUL, NUL]"

text \<open>A get-info reply with the given run-state.\<close>

definition info_header :: string where
  "info_header = [CHR 0x0C, CHR 0x00, CHR 0x00, CHR 0x00, CHR 0x14, CHR 0x00, CHR 0x00, CHR 0x00]"

definition info_body :: "char \<Rightarrow> string" where
  "info_body runstate =
     [runstate, CHR 0x00, CHR 0x00, CHR 0x00,
      CHR 0x00, CHR 0x02, CHR 0x00, CHR 0x00,
      CHR 0x00, CHR 0x01, CHR 0x00, CHR 0x00,
      CHR 0x01, CHR 0x00, CHR 0x00, CHR 0x00,
      CHR 0x2A, CHR 0x00, CHR 0x00, CHR 0x00]"

definition unset_info :: virDomainInfo where
  "unset_info = \<lparr>state = VIR_DOMAIN_CRASHED, maxMem = 1, memory = 1, nrVirtCpu = 1, cpuTime = 1\<rparr>"

text \<open>A domain and a network handle, and a document of 2 GiB.\<close>

definition sample_domain :: virDomain where
  "sample_domain =
     \<lparr>dom_conn = sample_conn, dom_name = ''vm1'', dom_uuid = replicate 16 (CHR ''u''), dom_id = 7\<rparr>"

definition sample_network :: virNetwork where
  "sample_network =
     \<lparr>net_conn = sample_conn, net_name = ''net1'', net_uuid = replicate 16 (CHR ''n'')\<rparr>"

definition huge_document :: string where
  "huge_document = replicate (2 ^ 31) (CHR ''x'')"

section \<open>Properties\<close>

subsection \<open>Connecting with autostart\<close>

lemma qemuForkServer_found:
  "qemuFindServerPath h = Some p \<Longrightarrow> qemuForkServer h = (0, [EvForkDaemon p])"
  by (simp add: qemuForkServer_def)

text \<open>
  The whole run against a socket that never accepts, on a host where sockets can be created
  and the daemon executable is found: four attempts, a fork and a sleep after each of the
  first three.
\<close>

lemma retry_trace:
  assumes a: "autostart \<noteq> 0"
    and s: "\<forall>k. 0 \<le> socket_result h k"
    and c: "\<forall>k. \<not> connect_ok h k"
    and p: "qemuFindServerPath h = Some p"
  shows "qemuOpenClientUNIX h conn path autostart =
           (-1, conn,
            attempt h path 0 @ [EvForkDaemon p, EvUsleep 5000] @
            attempt h path 1 @ [EvForkDaemon p, EvUsleep 20000] @
            attempt h path 2 @ [EvForkDaemon p, EvUsleep 45000] @
            attempt h path 3)"
proof -
  have neg: "\<And>k. \<not> socket_result h k < 0" using s by (simp add: not_less)
  have r3: "qemuOpenClientUNIX_retry h conn path autostart 3 = (-1, conn, attempt h path 3)"
    using c neg
    by (simp add: qemuOpenClientUNIX_retry.simps [of h conn path autostart "Suc (Suc (Suc 0))"]
        attempt_def Let_def numeral_2_eq_2 numeral_3_eq_3)
  have r2: "qemuOpenClientUNIX_retry h conn path autostart 2 =
      (-1, conn, attempt h path 2 @ [EvForkDaemon p, EvUsleep 45000] @ attempt h path 3)"
    using a c neg r3
    by (simp add: qemuOpenClientUNIX_retry.simps [of h conn path autostart "Suc (Suc 0)"]
        qemuForkServer_found [OF p] attempt_def Let_def numeral_2_eq_2 numeral_3_eq_3)
  have r1: "qemuOpenClientUNIX_retry h conn path autostart 1 =
      (-1, conn, attempt h path 1 @ [EvForkDaemon p, EvUsleep 20000] @
                 attempt h path 2 @ [EvForkDaemon p, EvUsleep 45000] @ attempt h path 3)"
    using a c neg r2
    by (simp add: qemuOpenClientUNIX_retry.simps [of h conn path autostart "Suc 0"]
        qemuForkServer_found [OF p] attempt_def Let_def numeral_2_eq_2 numeral_3_eq_3)
  show ?thesis
    using a c neg r1
    by (simp add: qemuOpenClientUNIX_def
        qemuOpenClientUNIX_retry.simps [of h conn path autostart 0]
        qemuForkServer_found [OF p] attempt_def Let_def numeral_2_eq_2 numeral_3_eq_3)
qed

text \<open>
  Claim C1, as stated, fails: with autostart enabled and a socket that never becomes
  connectable, on a host without a daemon executable the first failed connect ends the
  call: \<open>qemuForkServer\<close> is called once and fails, no daemon is forked (not three) and
  nothing sleeps.
\<close>

theorem C1_counterexample:
  "qemuOpenClientUNIX host_without_daemon \<lparr>qemud_fd = -1\<rparr> ''@/home/u/.qemud/sock'' 1 =
     (-1, \<lparr>qemud_fd = -1\<rparr>,
      [EvSocket 3, EvConnect 3 (NUL # ''/home/u/.qemud/sock''), EvClose 3,
       EvStderr (''failed to find qemu'' @ [CHR 0x0A])])
   \<and> \<not> (length (spawns (snd (snd (qemuOpenClientUNIX host_without_daemon \<lparr>qemud_fd = -1\<rparr>
          ''@/home/u/.qemud/sock'' 1)))) = 3)"
  by (simp add: qemuOpenClientUNIX_def qemuOpenClientUNIX_retry.simps [of _ _ _ _ 0]
      qemuForkServer_def qemuFindServerPath_def serverPaths_def host_without_daemon_def
      sun_path_of_def spawns_def Let_def)

text \<open>
  Claim C1, amended: with autostart enabled, against a socket that never becomes
  connectable, on a host where every \<open>socket\<close> call succeeds and the daemon executable is
  found, \<open>qemuOpenClientUNIX\<close> forks the daemon exactly three times, sleeps
  \<open>5000 * k * k\<close> microseconds after the k-th fork (k = 1, 2, 3), makes four connect
  attempts and returns \<open>-1\<close>, leaving the connection as it was.
\<close>

theorem C1_retry_bound:
  assumes "autostart \<noteq> 0"
    and "\<forall>k. 0 \<le> socket_result h k"
    and "\<forall>k. \<not> connect_ok h k"
    and "qemuFindServerPath h = Some p"
  shows "fst (qemuOpenClientUNIX h conn path autostart) = -1
       \<and> fst (snd (qemuOpenClientUNIX h conn path autostart)) = conn
       \<and> spawns (snd (snd (qemuOpenClientUNIX h conn path autostart))) = [p, p, p]
       \<and> sleeps (snd (snd (qemuOpenClientUNIX h conn path autostart)))
           = [5000 * 1 * 1, 5000 * 2 * 2, 5000 * 3 * 3]
       \<and> length (connects (snd (snd (qemuOpenClientUNIX h conn path autostart)))) = 4"
  by (simp add: retry_trace [OF assms] spawns_def sleeps_def connects_def attempt_def)

theorem C1_retry_bound_witness:
  "(1::int) \<noteq> 0
   \<and> (\<forall>k. 0 \<le> socket_result host_with_daemon k)
   \<and> (\<forall>k. \<not> connect_ok host_with_daemon k)
   \<and> qemuFindServerPath host_with_daemon = Some ''/usr/bin/libvirt_qemu''
   \<and> fst (qemuOpenClientUNIX host_with_daemon \<lparr>qemud_fd = -1\<rparr> ''@/home/u/.qemud/sock'' 1) = -1
   \<and> spawns (snd (snd (qemuOpenClientUNIX host_with_daemon \<lparr>qemud_fd = -1\<rparr>
         ''@/home/u/.qemud/sock'' 1)))
       = [''/usr/bin/libvirt_qemu'', ''/usr/bin/libvirt_qemu'', ''/usr/bin/libvirt_qemu'']
   \<and> sleeps (snd (snd (qemuOpenClientUNIX host_with_daemon \<lparr>qemud_fd = -1\<rparr>
         ''@/home/u/.qemud/sock'' 1)))
       = [5000, 20000, 45000]"
proof -
  have h1: "(1::int) \<noteq> 0" by simp
  have h2: "\<forall>k. 0 \<le> socket_result host_with_daemon k" by (simp add: host_with_daemon_def)
  have h3: "\<forall>k. \<not> connect_ok host_with_daemon k" by (simp add: host_with_daemon_def)
  have h4: "qemuFindServerPath host_with_daemon = Some ''/usr/bin/libvirt_qemu''"
    by (simp add: qemuFindServerPath_def serverPaths_def host_with_daemon_def)
  show ?thesis
    using h1 h2 h3 h4
      C1_retry_bound [OF h1 h2 h3 h4, of "\<lparr>qemud_fd = -1\<rparr>" "''@/home/u/.qemud/sock''"]
    by simp
qed

subsection \<open>Closing a connection\<close>

text \<open>
  Claim C9: \<open>qemuClose\<close> always returns 0; on a connection whose descriptor is set it
  closes that descriptor once and marks the connection closed; closing the connection that
  results again closes nothing, returns 0 and leaves the connection unchanged.
\<close>

theorem C9_close_idempotent:
  "fst (qemuClose conn) = 0
   \<and> (qemud_fd conn \<noteq> -1 \<longrightarrow>
        qemuClose conn = (0, conn\<lparr>qemud_fd := -1\<rparr>, [EvClose (qemud_fd conn)]))
   \<and> qemuClose (fst (snd (qemuClose conn))) = (0, fst (snd (qemuClose conn)), [])"
  by (simp add: qemuClose_def)

theorem C9_close_idempotent_witness:
  "qemud_fd \<lparr>qemud_fd = 7\<rparr> \<noteq> -1
   \<and> qemuClose \<lparr>qemud_fd = 7\<rparr> = (0, \<lparr>qemud_fd = -1\<rparr>, [EvClose 7])
   \<and> qemuClose (fst (snd (qemuClose \<lparr>qemud_fd = 7\<rparr>))) = (0, \<lparr>qemud_fd = -1\<rparr>, [])"
  using C9_close_idempotent [of "\<lparr>qemud_fd = 7\<rparr>"] by (simp add: qemuClose_def)

subsection \<open>The socket primitives and the loops leave the rest of the world alone\<close>

lemma emit_simps [simp]:
  "trace (emit e w) = trace w @ [e]"
  "reads (emit e w) = reads w"
  "writes (emit e w) = writes w"
  "uninit (emit e w) = uninit w"
  "virGetDomain_null (emit e w) = virGetDomain_null w"
  "virFreeDomain_result (emit e w) = virFreeDomain_result w"
  "virFreeNetwork_result (emit e w) = virFreeNetwork_result w"
  by (simp_all add: emit_def)

lemma send_loop_Nil [simp]: "send_loop fd [] w = (True, w)"
  by (simp add: send_loop.simps)

lemma recv_loop_0 [simp]: "recv_loop fd 0 got w = (Some got, w)"
  by (simp add: recv_loop.simps)

lemma sys_write_frame:
  assumes "sys_write fd buf w = (got, w')"
  shows "reads w' = reads w" "uninit w' = uninit w"
    "virGetDomain_null w' = virGetDomain_null w"
    "virFreeDomain_result w' = virFreeDomain_result w"
    "virFreeNetwork_result w' = virFreeNetwork_result w"
    "trace w' = trace w @ [EvWrite fd buf got]"
  using assms by (auto simp: sys_write_def split: list.splits wres.splits)

lemma sys_read_frame:
  assumes "sys_read fd n w = ((cnt, bs), w')"
  shows "writes w' = writes w" "uninit w' = uninit w"
    "virGetDomain_null w' = virGetDomain_null w"
    "virFreeDomain_result w' = virFreeDomain_result w"
    "virFreeNetwork_result w' = virFreeNetwork_result w"
    "trace w' = trace w @ [EvRead fd n cnt]"
    "cnt \<le> int n" "0 < cnt \<Longrightarrow> length bs = nat cnt"
  using assms by (auto simp: sys_read_def split: list.splits rres.splits)

lemma send_loop_frame:
  "send_loop fd out w = (b, w') \<Longrightarrow>
     reads w' = reads w \<and> uninit w' = uninit w
     \<and> virGetDomain_null w' = virGetDomain_null w
     \<and> virFreeDomain_result w' = virFreeDomain_result w
     \<and> virFreeNetwork_result w' = virFreeNetwork_result w
     \<and> (\<exists>es. trace w' = trace w @ es \<and> list_all is_write es)"
proof (induction fd out w arbitrary: b w' rule: send_loop.induct)
  case (1 fd out w)
  show ?case
  proof (cases "out = []")
    case True
    with "1.prems" show ?thesis by simp
  next
    case False
    obtain got w1 where sw: "sys_write fd out w = (got, w1)" by (cases "sys_write fd out w")
    note fr = sys_write_frame [OF sw]
    show ?thesis
    proof (cases "got < 0")
      case True
      with False sw "1.prems" have "w' = w1" by (simp add: send_loop.simps [of fd out w])
      with fr show ?thesis by simp
    next
      case neg: False
      with False sw "1.prems" have rec: "send_loop fd (drop (nat got) out) w1 = (b, w')"
        by (simp add: send_loop.simps [of fd out w])
      from "1.IH" [OF False sw [symmetric] neg rec] fr show ?thesis
        by auto
    qed
  qed
qed

lemma recv_loop_frame:
  "recv_loop fd inLeft got w = (r, w') \<Longrightarrow>
     writes w' = writes w \<and> uninit w' = uninit w
     \<and> virGetDomain_null w' = virGetDomain_null w
     \<and> virFreeDomain_result w' = virFreeDomain_result w
     \<and> virFreeNetwork_result w' = virFreeNetwork_result w
     \<and> (\<exists>es. trace w' = trace w @ es \<and> list_all is_read es)"
proof (induction fd inLeft got w arbitrary: r w' rule: recv_loop.induct)
  case (1 fd inLeft got w)
  show ?case
  proof (cases "inLeft = 0")
    case True
    with "1.prems" show ?thesis by simp
  next
    case False
    obtain cnt bs w1 where sr: "sys_read fd inLeft w = ((cnt, bs), w1)"
      by (cases "sys_read fd inLeft w") auto
    note fr = sys_read_frame [OF sr]
    show ?thesis
    proof (cases "cnt \<le> 0")
      case True
      with False sr "1.prems" have "w' = w1" by (simp add: recv_loop.simps [of fd inLeft got w])
      with fr show ?thesis by simp
    next
      case pos: False
      with False sr "1.prems"
      have rec: "recv_loop fd (inLeft - nat cnt) (got @ bs) w1 = (r, w')"
        by (simp add: recv_loop.simps [of fd inLeft got w])
      from "1.IH" [OF False sr [symmetric] refl pos rec] fr(1-6) show ?thesis
        by auto
    qed
  qed
qed

lemma recv_loop_bytes:
  "recv_loop fd inLeft got w = (Some bs, w') \<Longrightarrow>
     length bs = length got + inLeft
     \<and> bytes_read (trace w') = bytes_read (trace w) + int inLeft"
proof (induction fd inLeft got w arbitrary: bs w' rule: recv_loop.induct)
  case (1 fd inLeft got w)
  show ?case
  proof (cases "inLeft = 0")
    case True
    with "1.prems" show ?thesis by simp
  next
    case False
    obtain cnt cs w1 where sr: "sys_read fd inLeft w = ((cnt, cs), w1)"
      by (cases "sys_read fd inLeft w") auto
    note fr = sys_read_frame [OF sr]
    have pos: "\<not> cnt \<le> 0"
      using False sr "1.prems" by (auto simp: recv_loop.simps [of fd inLeft got w])
    with False sr "1.prems"
    have rec: "recv_loop fd (inLeft - nat cnt) (got @ cs) w1 = (Some bs, w')"
      by (simp add: recv_loop.simps [of fd inLeft got w])
    from "1.IH" [OF False sr [symmetric] refl pos rec] fr pos show ?thesis
      by (auto simp: bytes_read_def)
  qed
qed

lemma qemuError_frame:
  "reads (qemuError P con vdom error info w) = reads w"
  "filter is_read (trace (qemuError P con vdom error info w)) = filter is_read (trace w)"
  "filter is_release (trace (qemuError P con vdom error info w)) = filter is_release (trace w)"
  "bytes_read (trace (qemuError P con vdom error info w)) = bytes_read (trace w)"
  "virFreeDomain_result (qemuError P con vdom error info w) = virFreeDomain_result w"
  "virFreeNetwork_result (qemuError P con vdom error info w) = virFreeNetwork_result w"
  by (simp_all add: qemuError_def bytes_read_def)

lemma qemuPacketError_frame:
  "reads (qemuPacketError P con vdom pkt w) = reads w"
  "filter is_read (trace (qemuPacketError P con vdom pkt w)) = filter is_read (trace w)"
  "filter is_release (trace (qemuPacketError P con vdom pkt w)) = filter is_release (trace w)"
  "bytes_read (trace (qemuPacketError P con vdom pkt w)) = bytes_read (trace w)"
  "virFreeDomain_result (qemuPacketError P con vdom pkt w) = virFreeDomain_result w"
  "virFreeNetwork_result (qemuPacketError P con vdom pkt w) = virFreeNetwork_result w"
  by (simp_all add: qemuPacketError_def qemuError_frame split: option.splits)

lemma send_loop_bytes:
  "bytes_read (trace (snd (send_loop fd out w))) = bytes_read (trace w)"
proof -
  obtain b w' where s: "send_loop fd out w = (b, w')" by (cases "send_loop fd out w")
  from send_loop_frame [OF s] obtain es where
    es: "trace w' = trace w @ es" "list_all is_write es" by blast
  have "list_all is_write es \<Longrightarrow> sum_list (map got_bytes es) = 0" for es
  proof (induction es)
    case Nil
    show ?case by simp
  next
    case (Cons e es)
    then show ?case by (cases e) simp_all
  qed
  with es s show ?thesis by (simp add: bytes_read_def)
qed

subsection \<open>Evaluating the model on the sample layout\<close>

lemmas run_defs = header_read_def sent_def body_read_def outgoing_def empty_request_def
  world_with_input_def reply_world_def sample_reply_def sample_conn_def
  sample_layout_def sample_packet_bytes_def sample_union_bytes_def le32_bytes_def
  blank_packet_def send_loop.simps recv_loop.simps sys_write_def sys_read_def emit_def
  sample_header_of_def sample_store_data_def overlay_def le32_def sle32_def NUL_def
  oversize_header_def failure_header_def failure_body_def failure_world_def code_9_def
  code_0_def domains_header_def domains_body_def overfull_body_def names_header_def
  names_body_def
  info_header_def info_body_def sample_domain_def sample_network_def
  get_info_request_def destroy_request_def undefine_request_def network_undefine_request_def

lemmas exchange_defs = qemuProcessRequest_def qemuPacketError_def qemuError_def Let_def

subsection \<open>Oversize headers\<close>

text \<open>
  Claim C2: when the request has been sent and a complete header has been read whose
  declared body size is greater than the size of the union of body variants,
  \<open>qemuProcessRequest\<close> returns the error and the world is the one the header read left,
  but for the error raised (\<open>Malformed data packet\<close>): no read call follows the header,
  the input that followed the header is still unread, and the bytes read during the
  exchange are exactly those of the header.
\<close>

theorem C2_oversize_header_rejected:
  assumes "fst (sent P conn req w)"
    and "fst (header_read P conn req w) = Some hb"
    and "sizeof_qemud_packet_data P < dataSize (header_of P hb)"
  shows "fst (qemuProcessRequest P conn vdom req reply w) = None
       \<and> snd (qemuProcessRequest P conn vdom req reply w)
           = qemuPacketError P conn vdom None (snd (header_read P conn req w))
       \<and> reads (snd (qemuProcessRequest P conn vdom req reply w))
           = reads (snd (header_read P conn req w))
       \<and> filter is_read (trace (snd (qemuProcessRequest P conn vdom req reply w)))
           = filter is_read (trace (snd (header_read P conn req w)))
       \<and> bytes_read (trace (snd (qemuProcessRequest P conn vdom req reply w)))
           = bytes_read (trace w) + int (sizeof_qemud_packet_header P)
       \<and> (VIR_ERR_INTERNAL_ERROR P \<noteq> VIR_ERR_OK P \<longrightarrow>
            trace (snd (qemuProcessRequest P conn vdom req reply w))
              = trace (snd (header_read P conn req w))
                @ [EvRaiseError (VIR_ERR_INTERNAL_ERROR P) (Some ''Malformed data packet'')])"
proof -
  obtain w1 where s: "send_loop (qemud_fd conn) (outgoing P req) w = (True, w1)"
    using assms(1) by (cases "send_loop (qemud_fd conn) (outgoing P req) w") (auto simp: sent_def)
  obtain w2 where h: "recv_loop (qemud_fd conn) (sizeof_qemud_packet_header P) [] w1 = (Some hb, w2)"
    using assms(2) s
    by (cases "recv_loop (qemud_fd conn) (sizeof_qemud_packet_header P) [] w1")
       (auto simp: header_read_def sent_def)
  have hr: "snd (header_read P conn req w) = w2"
    using s h by (simp add: header_read_def sent_def)
  have res: "qemuProcessRequest P conn vdom req reply w = (None, qemuPacketError P conn vdom None w2)"
    using s h assms(3) by (simp add: qemuProcessRequest_def Let_def)
  have "bytes_read (trace w1) = bytes_read (trace w)"
    using send_loop_bytes [of "qemud_fd conn" "outgoing P req" w] s by simp
  moreover have "bytes_read (trace w2) = bytes_read (trace w1) + int (sizeof_qemud_packet_header P)"
    using recv_loop_bytes [OF h] by simp
  ultimately show ?thesis
    using res hr by (simp add: qemuPacketError_frame) (simp add: qemuPacketError_def qemuError_def)
qed

theorem C2_oversize_header_rejected_witness:
  "fst (sent sample_layout sample_conn
         (empty_request (reply_world oversize_header ''body'') 3)
         (reply_world oversize_header ''body''))
   \<and> fst (header_read sample_layout sample_conn
         (empty_request (reply_world oversize_header ''body'') 3)
         (reply_world oversize_header ''body'')) = Some oversize_header
   \<and> sizeof_qemud_packet_data sample_layout < dataSize (header_of sample_layout oversize_header)
   \<and> VIR_ERR_INTERNAL_ERROR sample_layout \<noteq> VIR_ERR_OK sample_layout
   \<and> fst (qemuProcessRequest sample_layout sample_conn None
         (empty_request (reply_world oversize_header ''body'') 3) blank_packet
         (reply_world oversize_header ''body'')) = None
   \<and> reads (snd (qemuProcessRequest sample_layout sample_conn None
         (empty_request (reply_world oversize_header ''body'') 3) blank_packet
         (reply_world oversize_header ''body''))) = [RData ''body'']
   \<and> bytes_read (trace (snd (qemuProcessRequest sample_layout sample_conn None
         (empty_request (reply_world oversize_header ''body'') 3) blank_packet
         (reply_world oversize_header ''body'')))) = 8
   \<and> filter is_read (trace (snd (qemuProcessRequest sample_layout sample_conn None
         (empty_request (reply_world oversize_header ''body'') 3) blank_packet
         (reply_world oversize_header ''body'')))) = [EvRead 5 8 8]
   \<and> filter is_raise (trace (snd (qemuProcessRequest sample_layout sample_conn None
         (empty_request (reply_world oversize_header ''body'') 3) blank_packet
         (reply_world oversize_header ''body''))))
       = [EvRaiseError 1 (Some ''Malformed data packet'')]"
proof -
  let ?w = "reply_world oversize_header ''body''"
  let ?req = "empty_request ?w 3"
  let ?res = "qemuProcessRequest sample_layout sample_conn None ?req blank_packet ?w"
  have h1: "fst (sent sample_layout sample_conn ?req ?w)" by (simp add: run_defs)
  have h2: "fst (header_read sample_layout sample_conn ?req ?w) = Some oversize_header"
    by (simp add: run_defs)
  have h3: "sizeof_qemud_packet_data sample_layout < dataSize (header_of sample_layout oversize_header)"
    by (simp add: run_defs)
  have h4: "VIR_ERR_INTERNAL_ERROR sample_layout \<noteq> VIR_ERR_OK sample_layout"
    by (simp add: sample_layout_def)
  have e: "VIR_ERR_INTERNAL_ERROR sample_layout = 1" by (simp add: sample_layout_def)
  have r: "reads (snd (header_read sample_layout sample_conn ?req ?w)) = [RData ''body'']"
    by (simp add: run_defs)
  have fr: "filter is_read (trace (snd (header_read sample_layout sample_conn ?req ?w)))
      = [EvRead 5 8 8]"
    by (simp add: run_defs)
  have fe: "filter is_raise (trace (snd (header_read sample_layout sample_conn ?req ?w))) = []"
    by (simp add: run_defs)
  have t: "bytes_read (trace ?w) = 0"
    by (simp add: reply_world_def world_with_input_def bytes_read_def)
  have s: "sizeof_qemud_packet_header sample_layout = 8" by (simp add: sample_layout_def)
  note c = C2_oversize_header_rejected [OF h1 h2 h3, of None blank_packet]
  from c have a: "fst ?res = None"
    by blast
  from c have "reads (snd ?res) = reads (snd (header_read sample_layout sample_conn ?req ?w))"
    by blast
  with r have b: "reads (snd ?res) = [RData ''body'']"
    by simp
  from c have "bytes_read (trace (snd ?res))
      = bytes_read (trace ?w) + int (sizeof_qemud_packet_header sample_layout)"
    by blast
  with t s have d: "bytes_read (trace (snd ?res)) = 8"
    by simp
  from c have "filter is_read (trace (snd ?res))
      = filter is_read (trace (snd (header_read sample_layout sample_conn ?req ?w)))"
    by blast
  with fr have f: "filter is_read (trace (snd ?res)) = [EvRead 5 8 8]"
    by simp
  from c h4 have "trace (snd ?res)
      = trace (snd (header_read sample_layout sample_conn ?req ?w))
        @ [EvRaiseError (VIR_ERR_INTERNAL_ERROR sample_layout) (Some ''Malformed data packet'')]"
    by blast
  with fe e have g: "filter is_raise (trace (snd ?res))
      = [EvRaiseError 1 (Some ''Malformed data packet'')]"
    by simp
  from h1 h2 h3 h4 a b d f g show ?thesis by blast
qed

subsection \<open>Replies of the wrong type\<close>

lemma stage_unfold:
  assumes "fst (sent P conn req w)"
    and "fst (header_read P conn req w) = Some hb"
  shows "send_loop (qemud_fd conn) (outgoing P req) w = (True, snd (sent P conn req w))"
    and "recv_loop (qemud_fd conn) (sizeof_qemud_packet_header P) [] (snd (sent P conn req w))
           = (Some hb, snd (header_read P conn req w))"
    and "body_read P conn req w
           = recv_loop (qemud_fd conn) (dataSize (header_of P hb)) [] (snd (header_read P conn req w))"
proof -
  show a: "send_loop (qemud_fd conn) (outgoing P req) w = (True, snd (sent P conn req w))"
    using assms(1) by (cases "send_loop (qemud_fd conn) (outgoing P req) w") (auto simp: sent_def)
  show b: "recv_loop (qemud_fd conn) (sizeof_qemud_packet_header P) [] (snd (sent P conn req w))
           = (Some hb, snd (header_read P conn req w))"
    using assms(2)
    by (cases "recv_loop (qemud_fd conn) (sizeof_qemud_packet_header P) [] (snd (sent P conn req w))")
       (auto simp: header_read_def)
  show "body_read P conn req w
           = recv_loop (qemud_fd conn) (dataSize (header_of P hb)) [] (snd (header_read P conn req w))"
    using assms(2)
    by (cases "recv_loop (qemud_fd conn) (sizeof_qemud_packet_header P) [] (snd (sent P conn req w))")
       (auto simp: body_read_def header_read_def)
qed

lemma mismatch_result:
  assumes "fst (sent P conn req w)"
    and "fst (header_read P conn req w) = Some hb"
    and "dataSize (header_of P hb) \<le> sizeof_qemud_packet_data P"
    and "fst (body_read P conn req w) = Some body"
    and "type (header_of P hb) \<noteq> type (header req)"
  shows "qemuProcessRequest P conn vdom req reply w =
           (None, qemuPacketError P conn vdom
                    (Some \<lparr>header = header_of P hb, data = store_data P body (data reply)\<rparr>)
                    (snd (body_read P conn req w)))"
proof -
  note st = stage_unfold [OF assms(1,2)]
  have b: "recv_loop (qemud_fd conn) (dataSize (header_of P hb)) [] (snd (header_read P conn req w))
             = (Some body, snd (body_read P conn req w))"
    using assms(4) st(3)
    by (cases "recv_loop (qemud_fd conn) (dataSize (header_of P hb)) []
                 (snd (header_read P conn req w))") auto
  show ?thesis
    using st(1,2) b assms(3,5) by (simp add: qemuProcessRequest_def Let_def)
qed

text \<open>
  Claim C3, as stated, fails: a failure packet whose code is \<open>VIR_ERR_OK\<close> makes the
  exchange fail, but no error is raised, so neither the code nor the message
  \<open>no such domain\<close> is surfaced.
\<close>

theorem C3_counterexample:
  "fst (body_read sample_layout sample_conn (empty_request (failure_world code_0) 3)
          (failure_world code_0)) = Some (failure_body code_0)
   \<and> type (header_of sample_layout failure_header) = QEMUD_PKT_FAILURE sample_layout
   \<and> type (header_of sample_layout failure_header)
         \<noteq> type (header (empty_request (failure_world code_0) 3))
   \<and> failure_info sample_layout (failureReply_message
         (store_data sample_layout (failure_body code_0) (data blank_packet)))
       = Some ''no such domain''
   \<and> fst (qemuProcessRequest sample_layout sample_conn None
            (empty_request (failure_world code_0) 3) blank_packet (failure_world code_0)) = None
   \<and> filter is_raise (trace (snd (qemuProcessRequest sample_layout sample_conn None
            (empty_request (failure_world code_0) 3) blank_packet (failure_world code_0)))) = []"
  by (simp add: run_defs exchange_defs failure_info_def elem0_def c_str_def)

text \<open>
  Claim C3, amended: when a complete reply with a valid size has been received and its type
  differs from the request's, \<open>qemuProcessRequest\<close> returns the error whatever the body
  holds. If the reply is a failure packet whose code is not \<open>VIR_ERR_OK\<close>, the error
  raised carries the daemon's code and message; if its code is \<open>VIR_ERR_OK\<close>, nothing is
  raised; for any other type the error raised is the internal error
  \<open>Incorrect reply type\<close>.
\<close>

theorem C3_type_mismatch:
  assumes "fst (sent P conn req w)"
    and "fst (header_read P conn req w) = Some hb"
    and "dataSize (header_of P hb) \<le> sizeof_qemud_packet_data P"
    and "fst (body_read P conn req w) = Some body"
    and "type (header_of P hb) \<noteq> type (header req)"
  shows "fst (qemuProcessRequest P conn vdom req reply w) = None
       \<and> (type (header_of P hb) = QEMUD_PKT_FAILURE P
            \<and> failureReply_code (store_data P body (data reply)) \<noteq> VIR_ERR_OK P \<longrightarrow>
          trace (snd (qemuProcessRequest P conn vdom req reply w))
            = trace (snd (body_read P conn req w))
              @ [EvRaiseError (failureReply_code (store_data P body (data reply)))
                   (failure_info P (failureReply_message (store_data P body (data reply))))])
       \<and> (type (header_of P hb) = QEMUD_PKT_FAILURE P
            \<and> failureReply_code (store_data P body (data reply)) = VIR_ERR_OK P \<longrightarrow>
          snd (qemuProcessRequest P conn vdom req reply w) = snd (body_read P conn req w))
       \<and> (type (header_of P hb) \<noteq> QEMUD_PKT_FAILURE P
            \<and> VIR_ERR_INTERNAL_ERROR P \<noteq> VIR_ERR_OK P \<longrightarrow>
          trace (snd (qemuProcessRequest P conn vdom req reply w))
            = trace (snd (body_read P conn req w))
              @ [EvRaiseError (VIR_ERR_INTERNAL_ERROR P) (Some ''Incorrect reply type'')])"
  by (simp add: mismatch_result [OF assms] qemuPacketError_def qemuError_def)

theorem C3_type_mismatch_witness:
  "fst (sent sample_layout sample_conn (empty_request (failure_world code_9) 3) (failure_world code_9))
   \<and> fst (header_read sample_layout sample_conn (empty_request (failure_world code_9) 3)
           (failure_world code_9)) = Some failure_header
   \<and> dataSize (header_of sample_layout failure_header) \<le> sizeof_qemud_packet_data sample_layout
   \<and> fst (body_read sample_layout sample_conn (empty_request (failure_world code_9) 3)
           (failure_world code_9)) = Some (failure_body code_9)
   \<and> type (header_of sample_layout failure_header)
         \<noteq> type (header (empty_request (failure_world code_9) 3))
   \<and> type (header_of sample_layout failure_header) = QEMUD_PKT_FAILURE sample_layout
   \<and> failureReply_code (store_data sample_layout (failure_body code_9) (data blank_packet))
         \<noteq> VIR_ERR_OK sample_layout
   \<and> fst (qemuProcessRequest sample_layout sample_conn None
            (empty_request (failure_world code_9) 3) blank_packet (failure_world code_9)) = None
   \<and> trace (snd (qemuProcessRequest sample_layout sample_conn None
            (empty_request (failure_world code_9) 3) blank_packet (failure_world code_9)))
       = trace (snd (body_read sample_layout sample_conn (empty_request (failure_world code_9) 3)
           (failure_world code_9))) @ [EvRaiseError 9 (Some ''no such domain'')]"
proof -
  let ?w = "failure_world code_9"
  let ?req = "empty_request ?w 3"
  have h1: "fst (sent sample_layout sample_conn ?req ?w)" by (simp add: run_defs)
  have h2: "fst (header_read sample_layout sample_conn ?req ?w) = Some failure_header"
    by (simp add: run_defs)
  have h3: "dataSize (header_of sample_layout failure_header) \<le> sizeof_qemud_packet_data sample_layout"
    by (simp add: run_defs)
  have h4: "fst (body_read sample_layout sample_conn ?req ?w) = Some (failure_body code_9)"
    by (simp add: run_defs)
  have h5: "type (header_of sample_layout failure_header) \<noteq> type (header ?req)"
    by (simp add: run_defs)
  have h6: "type (header_of sample_layout failure_header) = QEMUD_PKT_FAILURE sample_layout"
    by (simp add: run_defs)
  have c: "failureReply_code (store_data sample_layout (failure_body code_9) (data blank_packet)) = 9"
    by (simp add: run_defs)
  have h7: "failureReply_code (store_data sample_layout (failure_body code_9) (data blank_packet))
      \<noteq> VIR_ERR_OK sample_layout"
    by (simp add: c) (simp add: sample_layout_def)
  have m: "failure_info sample_layout (failureReply_message
      (store_data sample_layout (failure_body code_9) (data blank_packet))) = Some ''no such domain''"
    by (simp add: run_defs failure_info_def elem0_def c_str_def)
  note t = C3_type_mismatch [OF h1 h2 h3 h4 h5, of None blank_packet]
  from t have a: "fst (qemuProcessRequest sample_layout sample_conn None ?req blank_packet ?w) = None"
    by blast
  from t h6 h7 have "trace (snd (qemuProcessRequest sample_layout sample_conn None ?req blank_packet ?w))
      = trace (snd (body_read sample_layout sample_conn ?req ?w))
        @ [EvRaiseError (failureReply_code (store_data sample_layout (failure_body code_9) (data blank_packet)))
            (failure_info sample_layout (failureReply_message
               (store_data sample_layout (failure_body code_9) (data blank_packet))))]"
    by blast
  then have b: "trace (snd (qemuProcessRequest sample_layout sample_conn None ?req blank_packet ?w))
      = trace (snd (body_read sample_layout sample_conn ?req ?w)) @ [EvRaiseError 9 (Some ''no such domain'')]"
    by (simp only: c m)
  from h1 h2 h3 h4 h5 h6 h7 a b show ?thesis by blast
qed

subsection \<open>Listing running domains\<close>

lemma take_Suc_update:
  "i < length xs \<Longrightarrow> take (Suc i) (xs[i := x]) = take i xs @ [x]"
  by (simp add: take_Suc_conv_app_nth)

lemma map_nth_take: "k \<le> length xs \<Longrightarrow> map ((!) xs) [0..<k] = take k xs"
  by (simp add: list_eq_iff_nth_eq)

text \<open>
  The copy loops, when the count fits both the array of the reply and the caller's array:
  the elements from \<open>i\<close> up to the count are overwritten, the others are left alone.
\<close>

lemma copy_ids_from:
  "n \<le> int (length ids) \<Longrightarrow> n \<le> int (length domains) \<Longrightarrow>
   copy_ids domains n i ids =
     Returns (if int i < n
              then take i ids @ map ((!) domains) [i..<nat n] @ drop (nat n) ids
              else ids)"
proof (induction domains n i ids rule: copy_ids.induct)
  case (1 domains nDomains i ids)
  show ?case
  proof (cases "int i < nDomains")
    case False
    then show ?thesis by (simp add: copy_ids.simps [of domains nDomains i ids])
  next
    case True
    with "1.prems" have il: "i < length ids" and dl: "i < length domains" by linarith+
    from True have in': "i < nat nDomains" by linarith
    have len: "nDomains \<le> int (length (ids[i := domains ! i]))" using "1.prems" by simp
    have both: "i < length domains \<and> i < length ids" using il dl by simp
    note ih = "1.IH" [OF True both len "1.prems"(2)]
    have step: "copy_ids domains nDomains i ids
        = copy_ids domains nDomains (i + 1) (ids[i := domains ! i])"
      using True il dl by (simp add: copy_ids.simps [of domains nDomains i ids])
    have upt: "[i..<nat nDomains] = i # [Suc i..<nat nDomains]"
      using in' by (simp add: upt_conv_Cons)
    show ?thesis
    proof (cases "int (i + 1) < nDomains")
      case True
      then show ?thesis
        using step ih il in' upt \<open>int i < nDomains\<close>
        by (simp add: take_Suc_update)
    next
      case False
      with in' have eq: "nat nDomains = Suc i" by linarith
      show ?thesis
        using step ih False il eq upt \<open>int i < nDomains\<close>
        by (simp add: upd_conv_take_nth_drop)
    qed
  qed
qed

lemma copy_ids_all:
  assumes "n \<le> int (length ids)" and "n \<le> int (length domains)"
  shows "copy_ids domains n 0 ids = Returns (take (nat n) domains @ drop (nat n) ids)"
proof -
  have "nat n \<le> length domains" using assms(2) by linarith
  then show ?thesis
    using copy_ids_from [OF assms, of 0] by (simp add: map_nth_take)
qed

text \<open>A count above the size of the reply's array takes the loop past that array.\<close>

lemma copy_ids_overrun:
  "int (length domains) < n \<Longrightarrow> i \<le> length domains \<Longrightarrow>
   copy_ids domains n i ids = Undefined"
proof (induction domains n i ids rule: copy_ids.induct)
  case (1 domains nDomains i ids)
  from "1.prems" have lt: "int i < nDomains" by linarith
  show ?case
  proof (cases "i < length domains \<and> i < length ids")
    case False
    with lt show ?thesis by (auto simp: copy_ids.simps [of domains nDomains i ids])
  next
    case True
    then have "i + 1 \<le> length domains" by simp
    from "1.IH" [OF lt True "1.prems"(1) this] lt True show ?thesis
      by (simp add: copy_ids.simps [of domains nDomains i ids])
  qed
qed

lemma copy_names_from:
  "n \<le> int (length names) \<Longrightarrow> n \<le> int (length rows) \<Longrightarrow>
   copy_names P rows n i names =
     Returns (if int i < n
              then take i names
                   @ map (row_name P rows) [i..<nat n]
                   @ drop (nat n) names
              else names)"
proof (induction P rows n i names rule: copy_names.induct)
  case (1 P rows n i names)
  show ?case
  proof (cases "int i < n")
    case False
    then show ?thesis by (simp add: copy_names.simps [of P rows n i names])
  next
    case True
    with "1.prems" have il: "i < length names" and rl: "i < length rows" by linarith+
    from True have in': "i < nat n" by linarith
    let ?x = "row_name P rows i"
    have len: "n \<le> int (length (names[i := ?x]))" using "1.prems" by simp
    have both: "i < length rows \<and> i < length names" using il rl by simp
    note ih = "1.IH" [OF True both len "1.prems"(2)]
    have step: "copy_names P rows n i names = copy_names P rows n (i + 1) (names[i := ?x])"
      using True il rl by (simp add: copy_names.simps [of P rows n i names])
    have upt: "[i..<nat n] = i # [Suc i..<nat n]"
      using in' by (simp add: upt_conv_Cons)
    show ?thesis
    proof (cases "int (i + 1) < n")
      case True
      then show ?thesis
        using step ih il in' upt \<open>int i < n\<close>
        by (simp add: take_Suc_update)
    next
      case False
      with in' have eq: "nat n = Suc i" by linarith
      show ?thesis
        using step ih False il eq upt \<open>int i < n\<close>
        by (simp add: upd_conv_take_nth_drop)
    qed
  qed
qed

lemma copy_names_all:
  "n \<le> int (length names) \<Longrightarrow> n \<le> int (length rows) \<Longrightarrow>
   copy_names P rows n 0 names =
     Returns (map (row_name P rows) [0..<nat n] @ drop (nat n) names)"
  by (simp add: copy_names_from)

lemma reply_cases:
  assumes "fst (qemuProcessRequest P conn vdom req reply w) = Some r"
  obtains w' where "qemuProcessRequest P conn vdom req reply w = (Some r, w')"
  using assms by (cases "qemuProcessRequest P conn vdom req reply w") auto

lemma domains_run:
  "fst (qemuProcessRequest sample_layout sample_conn None
          (empty_request (reply_world domains_header domains_body)
             (QEMUD_PKT_LIST_DOMAINS sample_layout))
          (uninit (reply_world domains_header domains_body))
          (reply_world domains_header domains_body))
     = Some (sample_reply domains_header domains_body)"
  by (simp add: run_defs exchange_defs)

lemma overfull_run:
  "fst (qemuProcessRequest sample_layout sample_conn None
          (empty_request (reply_world domains_header overfull_body)
             (QEMUD_PKT_LIST_DOMAINS sample_layout))
          (uninit (reply_world domains_header overfull_body))
          (reply_world domains_header overfull_body))
     = Some (sample_reply domains_header overfull_body)"
  by (simp add: run_defs exchange_defs)

text \<open>
  Claim C4, as stated, fails: the count is clamped to the caller's capacity only. When the
  daemon reports 200 running domains, more than the 100 ids the array of the reply holds,
  and the caller's array has room for 200, the loop reads past the reply: the call does not
  return 200 entries, its behaviour is undefined.
\<close>

theorem C4_counterexample:
  "fst (qemuProcessRequest sample_layout sample_conn None
          (empty_request (reply_world domains_header overfull_body)
             (QEMUD_PKT_LIST_DOMAINS sample_layout))
          (uninit (reply_world domains_header overfull_body))
          (reply_world domains_header overfull_body))
     = Some (sample_reply domains_header overfull_body)
   \<and> listDomainsReply_numDomains (data (sample_reply domains_header overfull_body)) = 200
   \<and> length (listDomainsReply_domains (data (sample_reply domains_header overfull_body))) = 100
   \<and> (200::int) \<le> int (length (replicate 200 (0::int)))
   \<and> fst (qemuListDomains sample_layout sample_conn (replicate 200 0) 200
             (reply_world domains_header overfull_body)) = Undefined"
proof -
  let ?w = "reply_world domains_header overfull_body"
  let ?r = "sample_reply domains_header overfull_body"
  have run: "fst (qemuProcessRequest sample_layout sample_conn None
          (empty_request ?w (QEMUD_PKT_LIST_DOMAINS sample_layout)) (uninit ?w) ?w) = Some ?r"
    by (rule overfull_run)
  have n: "listDomainsReply_numDomains (data ?r) = 200"
    by (simp add: run_defs)
  have l: "length (listDomainsReply_domains (data ?r)) = 100"
    by (simp add: run_defs)
  from run obtain w' where e: "qemuProcessRequest sample_layout sample_conn None
          (empty_request ?w (QEMUD_PKT_LIST_DOMAINS sample_layout)) (uninit ?w) ?w = (Some ?r, w')"
    by (auto elim: reply_cases)
  have "copy_ids (listDomainsReply_domains (data ?r)) 200 0 (replicate 200 0) = Undefined"
    by (rule copy_ids_overrun) (simp_all add: l)
  with e n have u: "fst (qemuListDomains sample_layout sample_conn (replicate 200 0) 200 ?w)
      = Undefined"
    by (simp add: qemuListDomains_def Let_def)
  from run n l u show ?thesis by simp
qed

text \<open>
  Claim C4, amended: for a caller's array of at least \<open>maxids\<close> elements and a successful
  reply that reports \<open>n\<close> running domains, where \<open>min n maxids\<close> does not exceed the
  number of ids the array of the reply holds, \<open>qemuListDomains\<close> returns \<open>min n maxids\<close>,
  has written the first \<open>min n maxids\<close> ids of the reply over the first elements of the
  caller's array and left the others alone; it never writes past the caller's array (the
  result is not \<open>Undefined\<close>), and it does nothing after the exchange: no error is raised.
\<close>

theorem C4_list_domains_truncates:
  assumes "fst (qemuProcessRequest P conn None (empty_request w (QEMUD_PKT_LIST_DOMAINS P))
                  (uninit w) w) = Some reply"
    and "maxids \<le> int (length ids)"
    and "min (listDomainsReply_numDomains (data reply)) maxids
           \<le> int (length (listDomainsReply_domains (data reply)))"
  shows "fst (qemuListDomains P conn ids maxids w)
           = Returns (min (listDomainsReply_numDomains (data reply)) maxids,
                      take (nat (min (listDomainsReply_numDomains (data reply)) maxids))
                           (listDomainsReply_domains (data reply))
                      @ drop (nat (min (listDomainsReply_numDomains (data reply)) maxids)) ids)
       \<and> snd (qemuListDomains P conn ids maxids w)
           = snd (qemuProcessRequest P conn None (empty_request w (QEMUD_PKT_LIST_DOMAINS P))
                    (uninit w) w)"
proof -
  let ?n = "listDomainsReply_numDomains (data reply)"
  obtain w1 where r: "qemuProcessRequest P conn None (empty_request w (QEMUD_PKT_LIST_DOMAINS P))
                  (uninit w) w = (Some reply, w1)"
    using assms(1) by (auto elim: reply_cases)
  have m: "(if maxids < ?n then maxids else ?n) = min ?n maxids" by (simp add: min_def)
  have le: "min ?n maxids \<le> int (length ids)" using assms(2) by simp
  show ?thesis
    using r by (simp add: qemuListDomains_def Let_def m copy_ids_all [OF le assms(3)])
qed

theorem C4_list_domains_truncates_witness:
  "fst (qemuProcessRequest sample_layout sample_conn None
          (empty_request (reply_world domains_header domains_body)
             (QEMUD_PKT_LIST_DOMAINS sample_layout))
          (uninit (reply_world domains_header domains_body))
          (reply_world domains_header domains_body))
     = Some (sample_reply domains_header domains_body)
   \<and> (2::int) \<le> int (length [0, 0 :: int])
   \<and> listDomainsReply_numDomains (data (sample_reply domains_header domains_body)) = 5
   \<and> min (listDomainsReply_numDomains (data (sample_reply domains_header domains_body))) 2
        \<le> int (length (listDomainsReply_domains (data (sample_reply domains_header domains_body))))
   \<and> fst (qemuListDomains sample_layout sample_conn [0, 0] 2
             (reply_world domains_header domains_body)) = Returns (2, [1, 2])"
proof -
  let ?w = "reply_world domains_header domains_body"
  let ?r = "sample_reply domains_header domains_body"
  have h1: "fst (qemuProcessRequest sample_layout sample_conn None
          (empty_request ?w (QEMUD_PKT_LIST_DOMAINS sample_layout)) (uninit ?w) ?w) = Some ?r"
    by (rule domains_run)
  have h2: "(2::int) \<le> int (length [0, 0 :: int])" by simp
  have n: "listDomainsReply_numDomains (data ?r) = 5"
    by (simp add: run_defs)
  have h3: "min (listDomainsReply_numDomains (data ?r)) 2
      \<le> int (length (listDomainsReply_domains (data ?r)))"
    by (simp add: run_defs)
  have d: "take 2 (listDomainsReply_domains (data ?r)) = [1, 2]"
    by (simp add: run_defs take_map upt_rec numeral_2_eq_2)
  from C4_list_domains_truncates [OF h1 h2 h3]
  have "fst (qemuListDomains sample_layout sample_conn [0, 0] 2 ?w) =
      Returns (min (listDomainsReply_numDomains (data ?r)) 2,
        take (nat (min (listDomainsReply_numDomains (data ?r)) 2)) (listDomainsReply_domains (data ?r))
        @ drop (nat (min (listDomainsReply_numDomains (data ?r)) 2)) [0, 0])"
    by blast
  then have r: "fst (qemuListDomains sample_layout sample_conn [0, 0] 2 ?w) = Returns (2, [1, 2])"
    using d by (simp add: n)
  from h1 h2 n h3 r show ?thesis by blast
qed

subsection \<open>The other listings\<close>

lemma names_run:
  "fst (qemuProcessRequest sample_layout sample_conn None
          (empty_request (reply_world (names_header t) names_body) (int (of_char t)))
          (uninit (reply_world (names_header t) names_body))
          (reply_world (names_header t) names_body))
     = Some (sample_reply (names_header t) names_body)"
  by (simp add: run_defs exchange_defs)

lemma sample_rows:
  "length (listDefinedDomainsReply_domains (data (sample_reply hb body))) = 100"
  "row_name sample_layout (listDefinedDomainsReply_domains (data (sample_reply hb names_body))) 0
     = ''vm1''"
  "row_name sample_layout (listDefinedDomainsReply_domains (data (sample_reply hb names_body)))
     (Suc 0) = ''vm2''"
  by (simp_all add: run_defs row_name_def c_str_def)

text \<open>
  Claim C5, as stated, fails: when the daemon reports three defined domains and the caller's
  array holds two, \<open>qemuListDefinedDomains\<close> returns 2 and the first two names, not
  \<open>-1\<close>.
\<close>

theorem C5_counterexample:
  "listDefinedDomainsReply_numDomains (data (sample_reply (names_header (CHR 0x10)) names_body)) = 3
   \<and> fst (qemuListDefinedDomains sample_layout sample_conn [[], []] 2
            (reply_world (names_header (CHR 0x10)) names_body))
       = Returns (2, [''vm1'', ''vm2''])"
proof -
  let ?w = "reply_world (names_header (CHR 0x10)) names_body"
  let ?r = "sample_reply (names_header (CHR 0x10)) names_body"
  have t: "QEMUD_PKT_LIST_DEFINED_DOMAINS sample_layout = int (of_char (CHR 0x10))"
    by (simp add: sample_layout_def)
  from names_run [of "CHR 0x10", folded t] obtain w' where
    e: "qemuProcessRequest sample_layout sample_conn None
          (empty_request ?w (QEMUD_PKT_LIST_DEFINED_DOMAINS sample_layout)) (uninit ?w) ?w
        = (Some ?r, w')"
    by (auto elim: reply_cases)
  have n: "listDefinedDomainsReply_numDomains (data ?r) = 3"
    by (simp add: run_defs)
  have c: "copy_names sample_layout (listDefinedDomainsReply_domains (data ?r)) 2 0 [[], []]
      = Returns (map (row_name sample_layout (listDefinedDomainsReply_domains (data ?r))) [0..<nat 2]
                 @ drop (nat 2) [[], []])"
    by (rule copy_names_all) (simp_all add: sample_rows)
  have "map (row_name sample_layout (listDefinedDomainsReply_domains (data ?r))) [0..<2]
      = [''vm1'', ''vm2'']"
    by (simp add: upt_rec numeral_2_eq_2 sample_rows)
  with c have c': "copy_names sample_layout (listDefinedDomainsReply_domains (data ?r)) 2 0 [[], []]
      = Returns [''vm1'', ''vm2'']"
    by simp
  from e n c' have "fst (qemuListDefinedDomains sample_layout sample_conn [[], []] 2 ?w)
      = Returns (2, [''vm1'', ''vm2''])"
    by (simp add: qemuListDefinedDomains_def Let_def)
  with n show ?thesis by simp
qed

text \<open>
  Claim C5, amended: when the daemon reports more entries than the caller's capacity,
  \<open>qemuListNetworks\<close> and \<open>qemuListDefinedNetworks\<close> return \<open>-1\<close> and leave the
  caller's array alone, whereas \<open>qemuListDefinedDomains\<close>, like \<open>qemuListDomains\<close>,
  silently truncates: for a capacity that exceeds neither the caller's array nor the array
  of the reply, it returns the capacity and fills that many entries.
\<close>

theorem C5_capacity_policies:
  "(fst (qemuProcessRequest P conn None (empty_request w1 (QEMUD_PKT_LIST_NETWORKS P))
           (uninit w1) w1) = Some r1
      \<and> maxnames1 < listNetworksReply_numNetworks (data r1) \<longrightarrow>
    fst (qemuListNetworks P conn names1 maxnames1 w1) = Returns (-1, names1))
   \<and> (fst (qemuProcessRequest P conn None (empty_request w2 (QEMUD_PKT_LIST_DEFINED_NETWORKS P))
           (uninit w2) w2) = Some r2
      \<and> maxnames2 < listDefinedNetworksReply_numNetworks (data r2) \<longrightarrow>
    fst (qemuListDefinedNetworks P conn names2 maxnames2 w2) = Returns (-1, names2))
   \<and> (fst (qemuProcessRequest P conn None (empty_request w3 (QEMUD_PKT_LIST_DEFINED_DOMAINS P))
           (uninit w3) w3) = Some r3
      \<and> maxnames3 < listDefinedDomainsReply_numDomains (data r3)
      \<and> maxnames3 \<le> int (length names3)
      \<and> maxnames3 \<le> int (length (listDefinedDomainsReply_domains (data r3))) \<longrightarrow>
    fst (qemuListDefinedDomains P conn names3 maxnames3 w3)
      = Returns (maxnames3,
                 map (row_name P (listDefinedDomainsReply_domains (data r3))) [0..<nat maxnames3]
                 @ drop (nat maxnames3) names3))
   \<and> (fst (qemuProcessRequest P conn None (empty_request w4 (QEMUD_PKT_LIST_DOMAINS P))
           (uninit w4) w4) = Some r4
      \<and> maxids < listDomainsReply_numDomains (data r4)
      \<and> maxids \<le> int (length ids)
      \<and> maxids \<le> int (length (listDomainsReply_domains (data r4))) \<longrightarrow>
    fst (qemuListDomains P conn ids maxids w4)
      = Returns (maxids,
                 take (nat maxids) (listDomainsReply_domains (data r4))
                 @ drop (nat maxids) ids))"
proof (intro conjI impI)
  assume a: "fst (qemuProcessRequest P conn None (empty_request w1 (QEMUD_PKT_LIST_NETWORKS P))
           (uninit w1) w1) = Some r1 \<and> maxnames1 < listNetworksReply_numNetworks (data r1)"
  then obtain w' where "qemuProcessRequest P conn None
      (empty_request w1 (QEMUD_PKT_LIST_NETWORKS P)) (uninit w1) w1 = (Some r1, w')"
    by (auto elim: reply_cases)
  with a show "fst (qemuListNetworks P conn names1 maxnames1 w1) = Returns (-1, names1)"
    by (simp add: qemuListNetworks_def Let_def)
next
  assume a: "fst (qemuProcessRequest P conn None (empty_request w2 (QEMUD_PKT_LIST_DEFINED_NETWORKS P))
           (uninit w2) w2) = Some r2 \<and> maxnames2 < listDefinedNetworksReply_numNetworks (data r2)"
  then obtain w' where "qemuProcessRequest P conn None
      (empty_request w2 (QEMUD_PKT_LIST_DEFINED_NETWORKS P)) (uninit w2) w2 = (Some r2, w')"
    by (auto elim: reply_cases)
  with a show "fst (qemuListDefinedNetworks P conn names2 maxnames2 w2) = Returns (-1, names2)"
    by (simp add: qemuListDefinedNetworks_def Let_def)
next
  assume a: "fst (qemuProcessRequest P conn None (empty_request w3 (QEMUD_PKT_LIST_DEFINED_DOMAINS P))
           (uninit w3) w3) = Some r3
      \<and> maxnames3 < listDefinedDomainsReply_numDomains (data r3)
      \<and> maxnames3 \<le> int (length names3)
      \<and> maxnames3 \<le> int (length (listDefinedDomainsReply_domains (data r3)))"
  then have le: "maxnames3 \<le> int (length names3)"
    and le': "maxnames3 \<le> int (length (listDefinedDomainsReply_domains (data r3)))"
    by simp_all
  from a obtain w' where "qemuProcessRequest P conn None
      (empty_request w3 (QEMUD_PKT_LIST_DEFINED_DOMAINS P)) (uninit w3) w3 = (Some r3, w')"
    by (auto elim: reply_cases)
  with a show "fst (qemuListDefinedDomains P conn names3 maxnames3 w3)
      = Returns (maxnames3,
                 map (row_name P (listDefinedDomainsReply_domains (data r3))) [0..<nat maxnames3]
                 @ drop (nat maxnames3) names3)"
    using copy_names_all [OF le le', of P]
    by (simp add: qemuListDefinedDomains_def Let_def)
next
  assume a: "fst (qemuProcessRequest P conn None (empty_request w4 (QEMUD_PKT_LIST_DOMAINS P))
           (uninit w4) w4) = Some r4
      \<and> maxids < listDomainsReply_numDomains (data r4)
      \<and> maxids \<le> int (length ids)
      \<and> maxids \<le> int (length (listDomainsReply_domains (data r4)))"
  then have le: "maxids \<le> int (length ids)"
    and le': "maxids \<le> int (length (listDomainsReply_domains (data r4)))"
    by simp_all
  from a obtain w' where "qemuProcessRequest P conn None
      (empty_request w4 (QEMUD_PKT_LIST_DOMAINS P)) (uninit w4) w4 = (Some r4, w')"
    by (auto elim: reply_cases)
  with a show "fst (qemuListDomains P conn ids maxids w4)
      = Returns (maxids,
                 take (nat maxids) (listDomainsReply_domains (data r4))
                 @ drop (nat maxids) ids)"
    by (simp add: qemuListDomains_def Let_def copy_ids_all [OF le le'])
qed

theorem C5_capacity_policies_witness:
  "fst (qemuProcessRequest sample_layout sample_conn None
          (empty_request (reply_world (names_header (CHR 0x16)) names_body)
             (QEMUD_PKT_LIST_NETWORKS sample_layout))
          (uninit (reply_world (names_header (CHR 0x16)) names_body))
          (reply_world (names_header (CHR 0x16)) names_body))
     = Some (sample_reply (names_header (CHR 0x16)) names_body)
   \<and> 2 < listNetworksReply_numNetworks (data (sample_reply (names_header (CHR 0x16)) names_body))
   \<and> fst (qemuListNetworks sample_layout sample_conn [[], []] 2
            (reply_world (names_header (CHR 0x16)) names_body)) = Returns (-1, [[], []])
   \<and> fst (qemuProcessRequest sample_layout sample_conn None
          (empty_request (reply_world (names_header (CHR 0x18)) names_body)
             (QEMUD_PKT_LIST_DEFINED_NETWORKS sample_layout))
          (uninit (reply_world (names_header (CHR 0x18)) names_body))
          (reply_world (names_header (CHR 0x18)) names_body))
     = Some (sample_reply (names_header (CHR 0x18)) names_body)
   \<and> 2 < listDefinedNetworksReply_numNetworks
           (data (sample_reply (names_header (CHR 0x18)) names_body))
   \<and> fst (qemuListDefinedNetworks sample_layout sample_conn [[], []] 2
            (reply_world (names_header (CHR 0x18)) names_body)) = Returns (-1, [[], []])
   \<and> fst (qemuProcessRequest sample_layout sample_conn None
          (empty_request (reply_world (names_header (CHR 0x10)) names_body)
             (QEMUD_PKT_LIST_DEFINED_DOMAINS sample_layout))
          (uninit (reply_world (names_header (CHR 0x10)) names_body))
          (reply_world (names_header (CHR 0x10)) names_body))
     = Some (sample_reply (names_header (CHR 0x10)) names_body)
   \<and> 2 < listDefinedDomainsReply_numDomains
           (data (sample_reply (names_header (CHR 0x10)) names_body))
   \<and> (2::int) \<le> int (length [[], [] :: string])
   \<and> 2 \<le> int (length (listDefinedDomainsReply_domains
                (data (sample_reply (names_header (CHR 0x10)) names_body))))
   \<and> fst (qemuListDefinedDomains sample_layout sample_conn [[], []] 2
            (reply_world (names_header (CHR 0x10)) names_body)) = Returns (2, [''vm1'', ''vm2''])
   \<and> fst (qemuProcessRequest sample_layout sample_conn None
          (empty_request (reply_world domains_header domains_body)
             (QEMUD_PKT_LIST_DOMAINS sample_layout))
          (uninit (reply_world domains_header domains_body))
          (reply_world domains_header domains_body))
     = Some (sample_reply domains_header domains_body)
   \<and> 2 < listDomainsReply_numDomains (data (sample_reply domains_header domains_body))
   \<and> (2::int) \<le> int (length [0, 0 :: int])
   \<and> 2 \<le> int (length (listDomainsReply_domains (data (sample_reply domains_header domains_body))))
   \<and> fst (qemuListDomains sample_layout sample_conn [0, 0] 2
            (reply_world domains_header domains_body)) = Returns (2, [1, 2])"
proof -
  have t: "QEMUD_PKT_LIST_NETWORKS sample_layout = int (of_char (CHR 0x16))"
    "QEMUD_PKT_LIST_DEFINED_NETWORKS sample_layout = int (of_char (CHR 0x18))"
    "QEMUD_PKT_LIST_DEFINED_DOMAINS sample_layout = int (of_char (CHR 0x10))"
    by (simp_all add: sample_layout_def)
  note r1 = names_run [of "CHR 0x16", folded t]
  note r2 = names_run [of "CHR 0x18", folded t]
  note r3 = names_run [of "CHR 0x10", folded t]
  note r4 = domains_run
  have n1: "2 < listNetworksReply_numNetworks (data (sample_reply (names_header (CHR 0x16)) names_body))"
    by (simp add: run_defs)
  have n2: "2 < listDefinedNetworksReply_numNetworks
           (data (sample_reply (names_header (CHR 0x18)) names_body))"
    by (simp add: run_defs)
  have n3: "2 < listDefinedDomainsReply_numDomains
           (data (sample_reply (names_header (CHR 0x10)) names_body))"
    by (simp add: run_defs)
  have n4: "2 < listDomainsReply_numDomains (data (sample_reply domains_header domains_body))"
    by (simp add: run_defs)
  have l3: "(2::int) \<le> int (length [[], [] :: string])" by simp
  have l4: "(2::int) \<le> int (length [0, 0 :: int])" by simp
  have k3: "2 \<le> int (length (listDefinedDomainsReply_domains
                (data (sample_reply (names_header (CHR 0x10)) names_body))))"
    by (simp add: sample_rows)
  have k4: "2 \<le> int (length (listDomainsReply_domains
                (data (sample_reply domains_header domains_body))))"
    by (simp add: run_defs)
  have m3: "map (row_name sample_layout (listDefinedDomainsReply_domains
        (data (sample_reply (names_header (CHR 0x10)) names_body)))) [0..<2] = [''vm1'', ''vm2'']"
    by (simp add: upt_rec numeral_2_eq_2 sample_rows)
  have m4: "take 2 (listDomainsReply_domains (data (sample_reply domains_header domains_body)))
      = [1, 2]"
    by (simp add: run_defs take_map upt_rec numeral_2_eq_2)
  note c = C5_capacity_policies [of sample_layout sample_conn
      "reply_world (names_header (CHR 0x16)) names_body"
      "sample_reply (names_header (CHR 0x16)) names_body" 2 "[[], []]"
      "reply_world (names_header (CHR 0x18)) names_body"
      "sample_reply (names_header (CHR 0x18)) names_body" 2 "[[], []]"
      "reply_world (names_header (CHR 0x10)) names_body"
      "sample_reply (names_header (CHR 0x10)) names_body" 2 "[[], []]"
      "reply_world domains_header domains_body"
      "sample_reply domains_header domains_body" 2 "[0, 0]"]
  from c r1 n1 have a1: "fst (qemuListNetworks sample_layout sample_conn [[], []] 2
            (reply_world (names_header (CHR 0x16)) names_body)) = Returns (-1, [[], []])"
    by blast
  from c r2 n2 have a2: "fst (qemuListDefinedNetworks sample_layout sample_conn [[], []] 2
            (reply_world (names_header (CHR 0x18)) names_body)) = Returns (-1, [[], []])"
    by blast
  from c r3 n3 l3 k3 have "fst (qemuListDefinedDomains sample_layout sample_conn [[], []] 2
            (reply_world (names_header (CHR 0x10)) names_body))
      = Returns (2, map (row_name sample_layout (listDefinedDomainsReply_domains
          (data (sample_reply (names_header (CHR 0x10)) names_body)))) [0..<nat 2] @ drop (nat 2) [[], []])"
    by blast
  then have a3: "fst (qemuListDefinedDomains sample_layout sample_conn [[], []] 2
            (reply_world (names_header (CHR 0x10)) names_body)) = Returns (2, [''vm1'', ''vm2''])"
    by (simp add: m3)
  from c r4 n4 l4 k4 have "fst (qemuListDomains sample_layout sample_conn [0, 0] 2
            (reply_world domains_header domains_body))
      = Returns (2, take (nat 2) (listDomainsReply_domains (data (sample_reply domains_header domains_body)))
          @ drop (nat 2) [0, 0])"
    by blast
  then have a4: "fst (qemuListDomains sample_layout sample_conn [0, 0] 2
            (reply_world domains_header domains_body)) = Returns (2, [1, 2])"
    by (simp add: m4)
  from r1 n1 a1 r2 n2 a2 r3 n3 l3 k3 a3 r4 n4 l4 k4 a4 show ?thesis by blast
qed

subsection \<open>Oversize configuration documents\<close>

lemma int_of_size_t_small: "n < 2 ^ 31 \<Longrightarrow> int_of_size_t n = int n"
  by (simp add: int_of_size_t_def Let_def)

lemma oversize_rejected_below_2GiB:
  assumes "QEMUD_MAX_XML_LEN P \<le> length xml" and "length xml < 2 ^ 31"
  shows "qemuDomainCreateLinux P conn xml w = (Returns None, w)"
    and "qemuDomainDefineXML P conn xml w = (Returns None, w)"
  using assms
  by (simp_all add: qemuDomainCreateLinux_def qemuDomainDefineXML_def int_of_size_t_small Let_def)

text \<open>
  Claim C6 on the code: the guard compares the length after its conversion to \<open>int\<close>. A
  document of \<open>2 ^ 31\<close> characters exceeds the maximum, its converted length is negative,
  the guard does not fire and \<open>strcpy\<close> is reached with a document that does not fit the
  request buffer: neither function returns the null pointer of a local failure. Below
  \<open>2 ^ 31\<close> characters the guard works (\<open>oversize_rejected_below_2GiB\<close>).
\<close>

theorem C6_guard_bypassed_at_2GiB:
  "QEMUD_MAX_XML_LEN sample_layout < length huge_document
   \<and> int_of_size_t (length huge_document) = - (2 ^ 31)
   \<and> qemuDomainDefineXML sample_layout sample_conn huge_document (world_with_input [])
       = (Undefined, world_with_input [])
   \<and> qemuDomainCreateLinux sample_layout sample_conn huge_document (world_with_input [])
       = (Undefined, world_with_input [])"
  by (simp add: huge_document_def qemuDomainDefineXML_def qemuDomainCreateLinux_def
      int_of_size_t_def strcpy_def sample_layout_def Let_def)

subsection \<open>Undefine releases the handle\<close>

lemma no_release_in_writes: "list_all is_write es \<Longrightarrow> filter is_release es = []"
proof (induction es)
  case Nil
  show ?case by simp
next
  case (Cons e es)
  then show ?case by (cases e) simp_all
qed

lemma no_release_in_reads: "list_all is_read es \<Longrightarrow> filter is_release es = []"
proof (induction es)
  case Nil
  show ?case by simp
next
  case (Cons e es)
  then show ?case by (cases e) simp_all
qed

lemma send_loop_release:
  "filter is_release (trace (snd (send_loop fd out w))) = filter is_release (trace w)"
  "virFreeDomain_result (snd (send_loop fd out w)) = virFreeDomain_result w"
  "virFreeNetwork_result (snd (send_loop fd out w)) = virFreeNetwork_result w"
proof -
  obtain b w' where s: "send_loop fd out w = (b, w')" by (cases "send_loop fd out w")
  from send_loop_frame [OF s] obtain es where
    es: "trace w' = trace w @ es" "list_all is_write es" by blast
  with s show "filter is_release (trace (snd (send_loop fd out w))) = filter is_release (trace w)"
    by (simp add: no_release_in_writes)
  from send_loop_frame [OF s] s
  show "virFreeDomain_result (snd (send_loop fd out w)) = virFreeDomain_result w"
    "virFreeNetwork_result (snd (send_loop fd out w)) = virFreeNetwork_result w"
    by simp_all
qed

lemma recv_loop_release:
  "filter is_release (trace (snd (recv_loop fd n got w))) = filter is_release (trace w)"
  "virFreeDomain_result (snd (recv_loop fd n got w)) = virFreeDomain_result w"
  "virFreeNetwork_result (snd (recv_loop fd n got w)) = virFreeNetwork_result w"
proof -
  obtain r w' where s: "recv_loop fd n got w = (r, w')" by (cases "recv_loop fd n got w")
  from recv_loop_frame [OF s] obtain es where
    es: "trace w' = trace w @ es" "list_all is_read es" by blast
  with s show "filter is_release (trace (snd (recv_loop fd n got w))) = filter is_release (trace w)"
    by (simp add: no_release_in_reads)
  from recv_loop_frame [OF s] s
  show "virFreeDomain_result (snd (recv_loop fd n got w)) = virFreeDomain_result w"
    "virFreeNetwork_result (snd (recv_loop fd n got w)) = virFreeNetwork_result w"
    by simp_all
qed

lemma exchange_release:
  "filter is_release (trace (snd (qemuProcessRequest P conn vdom req reply w)))
     = filter is_release (trace w)
   \<and> virFreeDomain_result (snd (qemuProcessRequest P conn vdom req reply w))
     = virFreeDomain_result w
   \<and> virFreeNetwork_result (snd (qemuProcessRequest P conn vdom req reply w))
     = virFreeNetwork_result w"
proof -
  let ?fd = "qemud_fd conn"
  obtain b w1 where s: "send_loop ?fd (outgoing P req) w = (b, w1)"
    by (cases "send_loop ?fd (outgoing P req) w")
  have f1: "filter is_release (trace w1) = filter is_release (trace w)"
    "virFreeDomain_result w1 = virFreeDomain_result w"
    "virFreeNetwork_result w1 = virFreeNetwork_result w"
    using send_loop_release [of ?fd "outgoing P req" w] s by simp_all
  obtain h w2 where r: "recv_loop ?fd (sizeof_qemud_packet_header P) [] w1 = (h, w2)"
    by (cases "recv_loop ?fd (sizeof_qemud_packet_header P) [] w1")
  have f2: "filter is_release (trace w2) = filter is_release (trace w)"
    "virFreeDomain_result w2 = virFreeDomain_result w"
    "virFreeNetwork_result w2 = virFreeNetwork_result w"
    using recv_loop_release [of ?fd "sizeof_qemud_packet_header P" "[]" w1] r f1 by simp_all
  show ?thesis
  proof (cases b)
    case False
    with s f1 show ?thesis by (simp add: qemuProcessRequest_def Let_def)
  next
    case True
    note b = this
    show ?thesis
    proof (cases h)
      case None
      with b s r f2 show ?thesis by (simp add: qemuProcessRequest_def Let_def)
    next
      case (Some hb)
      note h = this
      show ?thesis
      proof (cases "sizeof_qemud_packet_data P < dataSize (header_of P hb)")
        case True
        with b h s r f2 show ?thesis
          by (simp add: qemuProcessRequest_def Let_def qemuPacketError_frame)
      next
        case False
        obtain bd w3 where r3: "recv_loop ?fd (dataSize (header_of P hb)) [] w2 = (bd, w3)"
          by (cases "recv_loop ?fd (dataSize (header_of P hb)) [] w2")
        have f3: "filter is_release (trace w3) = filter is_release (trace w)"
          "virFreeDomain_result w3 = virFreeDomain_result w"
          "virFreeNetwork_result w3 = virFreeNetwork_result w"
          using recv_loop_release [of ?fd "dataSize (header_of P hb)" "[]" w2] r3 f2 by simp_all
        from False b h s r r3 f3 show ?thesis
          by (cases bd) (simp_all add: qemuProcessRequest_def Let_def qemuPacketError_frame)
      qed
    qed
  qed
qed

text \<open>
  Claim C7: \<open>qemuUndefine\<close> and \<open>qemuNetworkUndefine\<close> release the local handle exactly
  once, whether the exchange with the daemon succeeds or not (the exchange itself releases
  nothing), and when the exchange fails they return \<open>-1\<close>.
\<close>

theorem C7_undefine_releases_once:
  "filter is_release (trace (snd (qemuUndefine P d w)))
     = filter is_release (trace w) @ [EvFreeDomain d]
   \<and> (fst (qemuProcessRequest P (dom_conn d) None (undefine_request P d w) (uninit w) w) = None
        \<longrightarrow> fst (qemuUndefine P d w) = -1)
   \<and> filter is_release (trace (snd (qemuNetworkUndefine P network w)))
     = filter is_release (trace w) @ [EvFreeNetwork network]
   \<and> (fst (qemuProcessRequest P (net_conn network) None (network_undefine_request P network w)
             (uninit w) w) = None
        \<longrightarrow> fst (qemuNetworkUndefine P network w) = -1)"
proof -
  obtain r w1 where e: "qemuProcessRequest P (dom_conn d) None (undefine_request P d w) (uninit w) w
      = (r, w1)"
    by (cases "qemuProcessRequest P (dom_conn d) None (undefine_request P d w) (uninit w) w")
  have f: "filter is_release (trace w1) = filter is_release (trace w)"
    using exchange_release [of P "dom_conn d" None "undefine_request P d w" "uninit w" w] e
    by simp
  obtain r' w1' where e': "qemuProcessRequest P (net_conn network) None
      (network_undefine_request P network w) (uninit w) w = (r', w1')"
    by (cases "qemuProcessRequest P (net_conn network) None
      (network_undefine_request P network w) (uninit w) w")
  have f': "filter is_release (trace w1') = filter is_release (trace w)"
    using exchange_release [of P "net_conn network" None "network_undefine_request P network w"
        "uninit w" w] e'
    by simp
  show ?thesis
    using e f e' f'
    by (simp add: qemuUndefine_def qemuNetworkUndefine_def virFreeDomain_def virFreeNetwork_def
        Let_def)
qed

theorem C7_undefine_releases_once_witness:
  "fst (qemuProcessRequest sample_layout (dom_conn sample_domain) None
          (undefine_request sample_layout sample_domain (world_with_input []))
          (uninit (world_with_input [])) (world_with_input [])) = None
   \<and> fst (qemuUndefine sample_layout sample_domain (world_with_input [])) = -1
   \<and> filter is_release (trace (snd (qemuUndefine sample_layout sample_domain (world_with_input []))))
       = [EvFreeDomain sample_domain]
   \<and> fst (qemuProcessRequest sample_layout (net_conn sample_network) None
          (network_undefine_request sample_layout sample_network (world_with_input []))
          (uninit (world_with_input [])) (world_with_input [])) = None
   \<and> fst (qemuNetworkUndefine sample_layout sample_network (world_with_input [])) = -1
   \<and> filter is_release (trace (snd (qemuNetworkUndefine sample_layout sample_network
         (world_with_input [])))) = [EvFreeNetwork sample_network]"
proof -
  let ?w = "world_with_input []"
  have h1: "fst (qemuProcessRequest sample_layout (dom_conn sample_domain) None
          (undefine_request sample_layout sample_domain ?w) (uninit ?w) ?w) = None"
    by (simp add: run_defs exchange_defs)
  have h2: "fst (qemuProcessRequest sample_layout (net_conn sample_network) None
          (network_undefine_request sample_layout sample_network ?w) (uninit ?w) ?w) = None"
    by (simp add: run_defs exchange_defs)
  have t: "filter is_release (trace ?w) = []" by (simp add: world_with_input_def)
  note c = C7_undefine_releases_once [of sample_layout sample_domain ?w sample_network]
  from c h1 have a: "fst (qemuUndefine sample_layout sample_domain ?w) = -1" by blast
  from c h2 have b: "fst (qemuNetworkUndefine sample_layout sample_network ?w) = -1" by blast
  from c t have d: "filter is_release (trace (snd (qemuUndefine sample_layout sample_domain ?w)))
       = [EvFreeDomain sample_domain]"
    by simp
  from c t have e: "filter is_release (trace (snd (qemuNetworkUndefine sample_layout sample_network ?w)))
       = [EvFreeNetwork sample_network]"
    by simp
  from h1 h2 a b d e show ?thesis by blast
qed

subsection \<open>The run-state of a domain\<close>

text \<open>
  Claim C8: after a successful get-info reply, the run-states running, paused and stopped
  (three distinct constants) give the states running, paused and shutoff with return value
  0, and any other run-state makes \<open>qemuGetDomainInfo\<close> return \<open>-1\<close>, the info
  structure holding only the zeros of \<open>memset\<close>.
\<close>

theorem C8_runstate_mapping:
  assumes "fst (qemuProcessRequest P (dom_conn domain) None (get_info_request P domain w)
                  (uninit w) w) = Some reply"
    and "distinct [QEMUD_STATE_RUNNING P, QEMUD_STATE_PAUSED P, QEMUD_STATE_STOPPED P]"
  shows "(domainGetInfoReply_runstate (data reply) = QEMUD_STATE_RUNNING P \<longrightarrow>
            fst (qemuGetDomainInfo P domain info w) = 0
            \<and> state (fst (snd (qemuGetDomainInfo P domain info w))) = VIR_DOMAIN_RUNNING)
       \<and> (domainGetInfoReply_runstate (data reply) = QEMUD_STATE_PAUSED P \<longrightarrow>
            fst (qemuGetDomainInfo P domain info w) = 0
            \<and> state (fst (snd (qemuGetDomainInfo P domain info w))) = VIR_DOMAIN_PAUSED)
       \<and> (domainGetInfoReply_runstate (data reply) = QEMUD_STATE_STOPPED P \<longrightarrow>
            fst (qemuGetDomainInfo P domain info w) = 0
            \<and> state (fst (snd (qemuGetDomainInfo P domain info w))) = VIR_DOMAIN_SHUTOFF)
       \<and> (domainGetInfoReply_runstate (data reply) \<noteq> QEMUD_STATE_RUNNING P
            \<and> domainGetInfoReply_runstate (data reply) \<noteq> QEMUD_STATE_PAUSED P
            \<and> domainGetInfoReply_runstate (data reply) \<noteq> QEMUD_STATE_STOPPED P \<longrightarrow>
            fst (qemuGetDomainInfo P domain info w) = -1
            \<and> fst (snd (qemuGetDomainInfo P domain info w)) = zeroed_info)"
proof -
  from assms(1) obtain w1 where e: "qemuProcessRequest P (dom_conn domain) None
      (get_info_request P domain w) (uninit w) w = (Some reply, w1)"
    by (auto elim: reply_cases)
  show ?thesis
    using e assms(2) by (auto simp: qemuGetDomainInfo_def runstate_switch_def)
qed

lemma info_run:
  "fst (qemuProcessRequest sample_layout (dom_conn sample_domain) None
          (get_info_request sample_layout sample_domain (reply_world info_header (info_body c)))
          (uninit (reply_world info_header (info_body c)))
          (reply_world info_header (info_body c)))
     = Some (sample_reply info_header (info_body c))"
  by (simp add: run_defs exchange_defs)

theorem C8_runstate_mapping_witness:
  "fst (qemuProcessRequest sample_layout (dom_conn sample_domain) None
          (get_info_request sample_layout sample_domain (reply_world info_header (info_body (CHR 0x02))))
          (uninit (reply_world info_header (info_body (CHR 0x02))))
          (reply_world info_header (info_body (CHR 0x02))))
     = Some (sample_reply info_header (info_body (CHR 0x02)))
   \<and> distinct [QEMUD_STATE_RUNNING sample_layout, QEMUD_STATE_PAUSED sample_layout,
                QEMUD_STATE_STOPPED sample_layout]
   \<and> domainGetInfoReply_runstate (data (sample_reply info_header (info_body (CHR 0x02))))
       = QEMUD_STATE_PAUSED sample_layout
   \<and> fst (qemuGetDomainInfo sample_layout sample_domain unset_info
            (reply_world info_header (info_body (CHR 0x02)))) = 0
   \<and> state (fst (snd (qemuGetDomainInfo sample_layout sample_domain unset_info
            (reply_world info_header (info_body (CHR 0x02)))))) = VIR_DOMAIN_PAUSED
   \<and> fst (qemuProcessRequest sample_layout (dom_conn sample_domain) None
          (get_info_request sample_layout sample_domain (reply_world info_header (info_body (CHR 0x09))))
          (uninit (reply_world info_header (info_body (CHR 0x09))))
          (reply_world info_header (info_body (CHR 0x09))))
     = Some (sample_reply info_header (info_body (CHR 0x09)))
   \<and> domainGetInfoReply_runstate (data (sample_reply info_header (info_body (CHR 0x09)))) = 9
   \<and> fst (qemuGetDomainInfo sample_layout sample_domain unset_info
            (reply_world info_header (info_body (CHR 0x09)))) = -1"
proof -
  have d: "distinct [QEMUD_STATE_RUNNING sample_layout, QEMUD_STATE_PAUSED sample_layout,
                QEMUD_STATE_STOPPED sample_layout]"
    by (simp add: sample_layout_def)
  have s: "QEMUD_STATE_RUNNING sample_layout = 1" "QEMUD_STATE_PAUSED sample_layout = 2"
    "QEMUD_STATE_STOPPED sample_layout = 3"
    by (simp_all add: sample_layout_def)
  have p: "domainGetInfoReply_runstate (data (sample_reply info_header (info_body (CHR 0x02))))
      = QEMUD_STATE_PAUSED sample_layout"
    by (simp add: run_defs)
  have u: "domainGetInfoReply_runstate (data (sample_reply info_header (info_body (CHR 0x09)))) = 9"
    by (simp add: run_defs)
  note a = C8_runstate_mapping [OF info_run [of "CHR 0x02"] d, of unset_info]
  note b = C8_runstate_mapping [OF info_run [of "CHR 0x09"] d, of unset_info]
  from a p have a': "fst (qemuGetDomainInfo sample_layout sample_domain unset_info
            (reply_world info_header (info_body (CHR 0x02)))) = 0
     \<and> state (fst (snd (qemuGetDomainInfo sample_layout sample_domain unset_info
            (reply_world info_header (info_body (CHR 0x02)))))) = VIR_DOMAIN_PAUSED"
    by blast
  from b u s have b': "fst (qemuGetDomainInfo sample_layout sample_domain unset_info
            (reply_world info_header (info_body (CHR 0x09)))) = -1"
    by simp
  from info_run [of "CHR 0x02"] info_run [of "CHR 0x09"] d p u a' b' show ?thesis by blast
qed

subsection \<open>Shutdown is destroy\<close>

lemma send_loop_first:
  assumes "out \<noteq> []"
  shows "\<exists>r es. trace (snd (send_loop fd out w)) = trace w @ EvWrite fd out r # es"
proof -
  obtain got w1 where sw: "sys_write fd out w = (got, w1)" by (cases "sys_write fd out w")
  note fr = sys_write_frame [OF sw]
  show ?thesis
  proof (cases "got < 0")
    case True
    with assms sw fr show ?thesis by (simp add: send_loop.simps [of fd out w])
  next
    case False
    obtain b w' where rest: "send_loop fd (drop (nat got) out) w1 = (b, w')"
      by (cases "send_loop fd (drop (nat got) out) w1")
    from send_loop_frame [OF rest] obtain es where "trace w' = trace w1 @ es" by blast
    with False assms sw fr rest show ?thesis by (simp add: send_loop.simps [of fd out w])
  qed
qed

lemma recv_loop_extends: "\<exists>es. trace (snd (recv_loop fd n got w)) = trace w @ es"
proof -
  obtain r w' where s: "recv_loop fd n got w = (r, w')" by (cases "recv_loop fd n got w")
  from recv_loop_frame [OF s] s show ?thesis by auto
qed

lemma qemuPacketError_extends: "\<exists>es. trace (qemuPacketError P con vdom pkt w) = trace w @ es"
  by (simp add: qemuPacketError_def qemuError_def split: option.splits)

lemma exchange_after_send:
  "\<exists>es. trace (snd (qemuProcessRequest P conn vdom req reply w))
         = trace (snd (sent P conn req w)) @ es"
proof -
  let ?fd = "qemud_fd conn"
  obtain b w1 where s: "send_loop ?fd (outgoing P req) w = (b, w1)"
    by (cases "send_loop ?fd (outgoing P req) w")
  obtain h w2 where r: "recv_loop ?fd (sizeof_qemud_packet_header P) [] w1 = (h, w2)"
    by (cases "recv_loop ?fd (sizeof_qemud_packet_header P) [] w1")
  from recv_loop_extends [of ?fd "sizeof_qemud_packet_header P" "[]" w1] r
  obtain es2 where e2: "trace w2 = trace w1 @ es2" by auto
  show ?thesis
  proof (cases b)
    case False
    with s show ?thesis by (simp add: qemuProcessRequest_def sent_def Let_def)
  next
    case True
    note b = this
    show ?thesis
    proof (cases h)
      case None
      with b s r e2 show ?thesis by (simp add: qemuProcessRequest_def sent_def Let_def)
    next
      case (Some hb)
      note h = this
      show ?thesis
      proof (cases "sizeof_qemud_packet_data P < dataSize (header_of P hb)")
        case True
        from qemuPacketError_extends [of P conn vdom None w2]
        obtain es3 where "trace (qemuPacketError P conn vdom None w2) = trace w2 @ es3" by blast
        with True b h s r e2 show ?thesis
          by (simp add: qemuProcessRequest_def sent_def Let_def)
      next
        case False
        obtain bd w3 where r3: "recv_loop ?fd (dataSize (header_of P hb)) [] w2 = (bd, w3)"
          by (cases "recv_loop ?fd (dataSize (header_of P hb)) [] w2")
        from recv_loop_extends [of ?fd "dataSize (header_of P hb)" "[]" w2] r3
        obtain es3 where e3: "trace w3 = trace w2 @ es3" by auto
        show ?thesis
        proof (cases bd)
          case None
          with False b h s r r3 e2 e3 show ?thesis
            by (simp add: qemuProcessRequest_def sent_def Let_def)
        next
          case (Some body)
          let ?rep = "\<lparr>header = header_of P hb, data = store_data P body (data reply)\<rparr>"
          from qemuPacketError_extends [of P conn vdom "Some ?rep" w3]
          obtain es4 where "trace (qemuPacketError P conn vdom (Some ?rep) w3) = trace w3 @ es4"
            by blast
          with Some False b h s r r3 e2 e3 show ?thesis
            by (simp add: qemuProcessRequest_def sent_def Let_def)
        qed
      qed
    qed
  qed
qed

lemma exchange_first_write:
  assumes "outgoing P req \<noteq> []"
  shows "\<exists>r es. trace (snd (qemuProcessRequest P conn vdom req reply w))
           = trace w @ EvWrite (qemud_fd conn) (outgoing P req) r # es"
proof -
  from send_loop_first [OF assms, of "qemud_fd conn" w]
  obtain r es where a: "trace (snd (sent P conn req w))
      = trace w @ EvWrite (qemud_fd conn) (outgoing P req) r # es"
    by (auto simp: sent_def)
  from exchange_after_send [of P conn vdom req reply w]
  obtain es' where "trace (snd (qemuProcessRequest P conn vdom req reply w))
      = trace (snd (sent P conn req w)) @ es'"
    by blast
  with a show ?thesis by simp
qed

text \<open>
  Claim C10: \<open>qemuShutdownDomain\<close> is \<open>qemuDestroyDomain\<close>: same result and same world
  for every layout, handle and world. The request is the domain-destroy request with the
  handle's id, and its bytes are what the first \<open>write\<close> of the exchange offers.
\<close>

theorem C10_shutdown_is_destroy:
  "qemuShutdownDomain P domain w = qemuDestroyDomain P domain w
   \<and> type (header (destroy_request P domain w)) = QEMUD_PKT_DOMAIN_DESTROY P
   \<and> domainDestroyRequest_id (data (destroy_request P domain w)) = dom_id domain
   \<and> (outgoing P (destroy_request P domain w) \<noteq> [] \<longrightarrow>
        (\<exists>r es. trace (snd (qemuShutdownDomain P domain w))
                  = trace w @ EvWrite (qemud_fd (dom_conn domain))
                                (outgoing P (destroy_request P domain w)) r # es))"
proof -
  have "snd (qemuDestroyDomain P domain w)
      = snd (qemuProcessRequest P (dom_conn domain) None (destroy_request P domain w) (uninit w) w)"
    by (simp add: qemuDestroyDomain_def split: prod.splits option.splits)
  then show ?thesis
    using exchange_first_write [of P "destroy_request P domain w" "dom_conn domain" None "uninit w" w]
    by (auto simp: qemuShutdownDomain_def destroy_request_def)
qed

theorem C10_shutdown_is_destroy_witness:
  "outgoing sample_layout (destroy_request sample_layout sample_domain (world_with_input []))
     = [CHR 0x0B, CHR 0x00, CHR 0x00, CHR 0x00, CHR 0x04, CHR 0x00, CHR 0x00, CHR 0x00,
        CHR 0x07, CHR 0x00, CHR 0x00, CHR 0x00]
   \<and> qemuShutdownDomain sample_layout sample_domain (world_with_input [])
       = qemuDestroyDomain sample_layout sample_domain (world_with_input [])
   \<and> (\<exists>r es. trace (snd (qemuShutdownDomain sample_layout sample_domain (world_with_input [])))
         = trace (world_with_input [])
           @ EvWrite 5 [CHR 0x0B, CHR 0x00, CHR 0x00, CHR 0x00, CHR 0x04, CHR 0x00, CHR 0x00, CHR 0x00,
                        CHR 0x07, CHR 0x00, CHR 0x00, CHR 0x00] r # es)"
proof -
  let ?w = "world_with_input []"
  have o: "outgoing sample_layout (destroy_request sample_layout sample_domain ?w)
     = [CHR 0x0B, CHR 0x00, CHR 0x00, CHR 0x00, CHR 0x04, CHR 0x00, CHR 0x00, CHR 0x00,
        CHR 0x07, CHR 0x00, CHR 0x00, CHR 0x00]"
    by (simp add: run_defs char_of_def bit_Suc_0_iff)
  then have ne: "outgoing sample_layout (destroy_request sample_layout sample_domain ?w) \<noteq> []"
    by simp
  have fd: "qemud_fd (dom_conn sample_domain) = 5" by (simp add: sample_domain_def sample_conn_def)
  note c = C10_shutdown_is_destroy [of sample_layout sample_domain ?w]
  from c have a: "qemuShutdownDomain sample_layout sample_domain ?w
       = qemuDestroyDomain sample_layout sample_domain ?w"
    by blast
  from c ne have "\<exists>r es. trace (snd (qemuShutdownDomain sample_layout sample_domain ?w))
      = trace ?w @ EvWrite (qemud_fd (dom_conn sample_domain))
           (outgoing sample_layout (destroy_request sample_layout sample_domain ?w)) r # es"
    by blast
  then have b: "\<exists>r es. trace (snd (qemuShutdownDomain sample_layout sample_domain ?w))
      = trace ?w @ EvWrite 5 [CHR 0x0B, CHR 0x00, CHR 0x00, CHR 0x00, CHR 0x04, CHR 0x00, CHR 0x00, CHR 0x00,
                        CHR 0x07, CHR 0x00, CHR 0x00, CHR 0x00] r # es"
    by (simp only: o fd)
  from o a b show ?thesis by blast
qed

end
